theory Spec2Isabelle
  imports Complex_Main "HOL-Library.Log_Nat"
begin

section \<open>JavaScript values\<close>

text \<open>
  The service receives request bodies, query parameters and protocol events as JSON-like
  JavaScript values. A string is the list of its code units (code units above 255 are
  outside the model); a number value is an integer-valued Number (\<open>NaN\<close>, infinities
  and fractions are outside the model of values; the arithmetic of \<open>backoffMs\<close> has
  its own model of doubles below).
\<close>

datatype jsval =
    JUndefined
  | JNull
  | JBool bool
  | JNum int
  | JStr string
  | JArr "jsval list"
  | JObj "(string \<times> jsval) list"

text \<open>An \<open>Error\<close> object: its \<open>statusCode\<close> property (when set) and its message.\<close>

datatype js_error = JsError (statusCode: "int option") (message: string)

text \<open>\<open>ToBoolean\<close>: what \<open>!v\<close>, \<open>v || w\<close> and \<open>filter(Boolean)\<close> test.\<close>

fun truthy :: "jsval \<Rightarrow> bool" where
  "truthy JUndefined = False"
| "truthy JNull = False"
| "truthy (JBool b) = b"
| "truthy (JNum n) = (n \<noteq> 0)"
| "truthy (JStr s) = (s \<noteq> [])"
| "truthy (JArr xs) = True"
| "truthy (JObj kvs) = True"

fun typeof :: "jsval \<Rightarrow> string" where
  "typeof JUndefined = ''undefined''"
| "typeof JNull = ''object''"
| "typeof (JBool b) = ''boolean''"
| "typeof (JNum n) = ''number''"
| "typeof (JStr s) = ''string''"
| "typeof (JArr xs) = ''object''"
| "typeof (JObj kvs) = ''object''"

fun isArray :: "jsval \<Rightarrow> bool" where
  "isArray (JArr xs) = True"
| "isArray v = False"

text \<open>\<open>v || w\<close> on values.\<close>

definition js_or :: "jsval \<Rightarrow> jsval \<Rightarrow> jsval" where
  "js_or v w = (if truthy v then v else w)"

text \<open>
  \<open>String.prototype.trim\<close> removes white space and line terminators from both ends; in
  the modelled range of code units these are TAB, LF, VT, FF, CR, SP and NBSP.
\<close>

definition is_ws :: "char \<Rightarrow> bool" where
  "is_ws c = (c \<in> {CHR 0x09, CHR 0x0A, CHR 0x0B, CHR 0x0C, CHR 0x0D, CHR 0x20, CHR 0xA0})"

definition trim :: "string \<Rightarrow> string" where
  "trim s = rev (dropWhile is_ws (rev (dropWhile is_ws s)))"

text \<open>
  Decimal printing of integers, for the example environment below (the printing of numbers
  by \<open>Number.prototype.toString\<close> is a parameter of the model).
\<close>

fun digits :: "nat \<Rightarrow> string" where
  "digits n =
     (if n < 10 then [''0123456789'' ! n]
      else digits (n div 10) @ [''0123456789'' ! (n mod 10)])"

declare digits.simps [simp del]

definition show_int :: "int \<Rightarrow> string" where
  "show_int i = (if i < 0 then CHR ''-'' # digits (nat (- i)) else digits (nat i))"

fun join_with :: "string \<Rightarrow> string list \<Rightarrow> string" where
  "join_with sep [] = []"
| "join_with sep [x] = x"
| "join_with sep (x # y # ys) = x @ sep @ join_with sep (y # ys)"

text \<open>
  \<open>String(v)\<close>, \<open>Inl\<close> when it throws. A string is itself; a number is printed by
  \<open>Number.prototype.toString\<close> (the parameter \<open>num\<close>); an array is its elements
  joined by commas, \<open>null\<close> and \<open>undefined\<close> elements printed empty, and throws
  when the conversion of an element does; an object of JSON data has no callable property
  of its own, so it is \<open>[object Object]\<close> by the inherited \<open>toString\<close>, and a
  \<open>TypeError\<close> when it has an own property \<open>toString\<close>, which hides the
  inherited one.
\<close>

fun js_String :: "(int \<Rightarrow> string) \<Rightarrow> jsval \<Rightarrow> js_error + string"
and js_strings :: "(int \<Rightarrow> string) \<Rightarrow> jsval list \<Rightarrow> js_error + string list" where
  "js_String num JUndefined = Inr ''undefined''"
| "js_String num JNull = Inr ''null''"
| "js_String num (JBool b) = Inr (if b then ''true'' else ''false'')"
| "js_String num (JNum n) = Inr (num n)"
| "js_String num (JStr s) = Inr s"
| "js_String num (JArr xs) =
     (case js_strings num xs of Inl e \<Rightarrow> Inl e | Inr ss \<Rightarrow> Inr (join_with '','' ss))"
| "js_String num (JObj kvs) =
     (if ''toString'' \<in> set (map fst kvs)
      then Inl (JsError None ''Cannot convert object to primitive value'')
      else Inr ''[object Object]'')"
| "js_strings num [] = Inr []"
| "js_strings num (x # xs) =
     (case (if x = JUndefined \<or> x = JNull then Inr [] else js_String num x) of
        Inl e \<Rightarrow> Inl e
      | Inr s' \<Rightarrow> (case js_strings num xs of Inl e \<Rightarrow> Inl e | Inr ss \<Rightarrow> Inr (s' # ss)))"

text \<open>
  Property read \<open>v.k\<close>: a \<open>TypeError\<close> on \<open>null\<close> and \<open>undefined\<close>, the
  own property of an object, \<open>undefined\<close> when the property is absent (the prototype
  properties of primitives and arrays are not among the keys the service reads).
\<close>

fun get_prop :: "jsval \<Rightarrow> string \<Rightarrow> js_error + jsval" where
  "get_prop JUndefined k = Inl (JsError None ''Cannot read properties of undefined'')"
| "get_prop JNull k = Inl (JsError None ''Cannot read properties of null'')"
| "get_prop (JObj kvs) k = Inr (case map_of kvs k of None \<Rightarrow> JUndefined | Some v \<Rightarrow> v)"
| "get_prop v k = Inr JUndefined"

text \<open>Optional chaining \<open>v?.k\<close>: \<open>undefined\<close> on \<open>null\<close> and \<open>undefined\<close>.\<close>

definition get_opt :: "jsval \<Rightarrow> string \<Rightarrow> jsval" where
  "get_opt v k = (case get_prop v k of Inl e \<Rightarrow> JUndefined | Inr x \<Rightarrow> x)"

section \<open>Helpers of utils/baileys.js\<close>

text \<open>
  The doubles of the arithmetic of \<open>backoffMs\<close>: an integer-valued double, the
  infinities and \<open>NaN\<close> (the two zeros are not told apart).
\<close>

datatype jsnum = Num int | PosInf | NegInf | NaN

text \<open>
  The double nearest to an integer, ties to the even significand, an infinity from
  \<open>2 ^ 1024\<close> on: an integer below \<open>2 ^ 53\<close> in magnitude is a double; a longer one
  keeps its 53 leading bits, rounded by the bits cut off.
\<close>

definition fl_int :: "int \<Rightarrow> jsnum" where
  "fl_int x =
     (let a = \<bar>x\<bar> in
      if a < 2 ^ 53 then Num x
      else
        let sh = nat (bitlen a - 53);
            q = a div 2 ^ sh;
            r = a mod 2 ^ sh;
            h = 2 ^ (sh - 1);
            q' = (if r > h \<or> (r = h \<and> odd q) then q + 1 else q);
            v = q' * 2 ^ sh
        in if v \<ge> 2 ^ 1024 then (if x < 0 then NegInf else PosInf) else Num (sgn x * v))"

text \<open>\<open>2 ** k\<close> for an integer \<open>k \<ge> 0\<close>: the exact power up to 1023, then \<open>Infinity\<close>.\<close>

definition js_pow2 :: "nat \<Rightarrow> jsnum" where
  "js_pow2 k = (if k \<le> 1023 then Num (2 ^ k) else PosInf)"

text \<open>\<open>x * y\<close>, \<open>x + y\<close> and \<open>Math.min(x, y)\<close> on these doubles.\<close>

fun js_mul :: "jsnum \<Rightarrow> jsnum \<Rightarrow> jsnum" where
  "js_mul NaN y = NaN"
| "js_mul x NaN = NaN"
| "js_mul (Num a) (Num b) = fl_int (a * b)"
| "js_mul (Num a) PosInf = (if a = 0 then NaN else if a > 0 then PosInf else NegInf)"
| "js_mul (Num a) NegInf = (if a = 0 then NaN else if a > 0 then NegInf else PosInf)"
| "js_mul PosInf (Num b) = (if b = 0 then NaN else if b > 0 then PosInf else NegInf)"
| "js_mul NegInf (Num b) = (if b = 0 then NaN else if b > 0 then NegInf else PosInf)"
| "js_mul PosInf PosInf = PosInf"
| "js_mul PosInf NegInf = NegInf"
| "js_mul NegInf PosInf = NegInf"
| "js_mul NegInf NegInf = PosInf"

fun js_add :: "jsnum \<Rightarrow> jsnum \<Rightarrow> jsnum" where
  "js_add NaN y = NaN"
| "js_add x NaN = NaN"
| "js_add (Num a) (Num b) = fl_int (a + b)"
| "js_add PosInf NegInf = NaN"
| "js_add NegInf PosInf = NaN"
| "js_add PosInf y = PosInf"
| "js_add x PosInf = PosInf"
| "js_add NegInf y = NegInf"
| "js_add x NegInf = NegInf"

fun js_min :: "jsnum \<Rightarrow> jsnum \<Rightarrow> jsnum" where
  "js_min NaN y = NaN"
| "js_min x NaN = NaN"
| "js_min NegInf y = NegInf"
| "js_min x NegInf = NegInf"
| "js_min PosInf y = y"
| "js_min x PosInf = x"
| "js_min (Num a) (Num b) = Num (min a b)"

text \<open>
  \<open>backoffMs(attempt, baseMs, maxMs)\<close>, for an integer attempt count and integer
  settings that are doubles (fractional and \<open>NaN\<close> settings are outside the model).
  The first argument of the model is the double that \<open>Math.random() * 200\<close>
  evaluated to.
\<close>

definition backoffMs :: "real \<Rightarrow> int \<Rightarrow> int \<Rightarrow> int \<Rightarrow> jsnum" where
  "backoffMs p attempt baseMs maxMs =
     (let jitter = \<lfloor>p\<rfloor>;
          raw = js_mul (Num baseMs) (js_pow2 (nat (max 0 (attempt - 1))))
      in js_min (Num maxMs) (js_add raw (Num jitter)))"

definition throwBadRequest :: "string \<Rightarrow> js_error" where
  "throwBadRequest msg = JsError (Some 400) msg"

text \<open>\<open>normalizeTarget(target)\<close>: \<open>Inl\<close> is the thrown error.\<close>

definition normalizeTarget :: "jsval \<Rightarrow> js_error + string" where
  "normalizeTarget target =
     (if \<not> truthy target \<or> typeof target \<noteq> ''string''
      then Inl (JsError (Some 400) ''target is required and must be a WhatsApp JID string.'')
      else Inr (trim (case target of JStr s \<Rightarrow> s | _ \<Rightarrow> [])))"

section \<open>Configuration, built-ins and the state of the service\<close>

text \<open>
  The module constants read from the process environment, the constant
  \<open>DisconnectReason.loggedOut\<close> of the protocol library, and the built-ins and external
  capabilities the code calls, as parameters: \<open>JSON.stringify\<close> (the text that the
  template literal of \<open>appendEvent\<close> makes of its result, \<open>None\<close> when it
  throws), \<open>JSON.parse\<close> (\<open>None\<close> when it throws), \<open>Date.parse\<close> on a string
  (\<open>None\<close> for \<open>NaN\<close>, else milliseconds since the epoch),
  \<open>Number.prototype.toString\<close> on an integer, \<open>Date.prototype.toISOString\<close>,
  the successive results of \<open>now()\<close>, \<open>qrcode.toDataURL\<close> (\<open>None\<close> when the promise
  rejects), \<open>socket.sendMessage\<close> (\<open>Inl\<close> when it rejects) and the opening of a
  protocol session, numbered in the order of the attempts: \<open>useMultiFileAuthState\<close>
  (the error it throws, if any), \<open>fetchLatestBaileysVersion\<close> (whether it succeeds) and
  \<open>makeWASocket\<close> (\<open>Inl\<close> when it throws, else the \<open>user\<close> of the new socket).
\<close>

record env =
  WEBHOOK_URL :: string
  WEBHOOK_MAX_RETRIES :: int
  WEBHOOK_RETRY_BASE_MS :: int
  WEBHOOK_RETRY_MAX_MS :: int
  EVENT_RETENTION :: int
  RECONNECT_BASE_MS :: int
  RECONNECT_MAX_MS :: int
  loggedOut :: int
  JSON_stringify :: "jsval \<Rightarrow> string option"
  JSON_parse :: "string \<Rightarrow> jsval option"
  Date_parse :: "string \<Rightarrow> int option"
  Number_toString :: "int \<Rightarrow> string"
  toISOString :: "int \<Rightarrow> string"
  now_at :: "nat \<Rightarrow> string"
  qr_toDataURL :: "jsval \<Rightarrow> string option"
  sendMessage :: "string \<Rightarrow> jsval \<Rightarrow> js_error + jsval"
  useMultiFileAuthState :: "nat \<Rightarrow> js_error option"
  fetchLatestBaileysVersion :: "nat \<Rightarrow> bool"
  makeWASocket :: "nat \<Rightarrow> js_error + jsval"

text \<open>A queued webhook delivery.\<close>

record item =
  url :: string
  payload :: jsval
  attempt :: int
  enqueuedAt :: string

text \<open>The protocol session handle: its \<open>user\<close> property and whether it has a \<open>ws\<close>.\<close>

record sock =
  sock_id :: nat
  user :: jsval
  ws :: bool

text \<open>
  The closure variables of \<open>createWhatsAppService\<close> and \<open>makeWebhookDispatcher\<close>,
  followed by the environment they act on: the journal file \<open>events.log\<close> (\<open>None\<close>
  when it does not exist) and whether a write to it succeeds, the entries of the
  credential directory, the messages passed to \<open>log\<close>, the pending \<open>setTimeout\<close>
  callbacks of the reconnect scheduler (handle and delay; each callback is
  \<open>connect(false)\<close>), the number of \<open>now()\<close> calls made, and the traces of the calls
  \<open>fetch\<close> (webhook POST), \<open>sleep\<close> (of the webhook worker), \<open>socket.sendMessage\<close>
  and \<open>socket.ws.close\<close>.
\<close>

record world =
  socket :: "sock option"
  connected :: bool
  currentQr :: jsval
  currentQrDataUrl :: jsval
  qrUpdatedAt :: jsval
  reconnectAttempts :: int
  reconnectTimer :: "nat option"
  lastDisconnectReason :: jsval
  me :: jsval
  eventBuffer :: "jsval list"
  queue :: "item list"
  running :: bool
  events_log :: "string option"
  fs_writable :: bool
  auth_entries :: "string list"
  logs :: "string list"
  timers :: "(nat \<times> jsnum) list"
  next_timer :: nat
  ticks :: nat
  posts :: "(string \<times> jsval) list"
  slept :: "jsnum list"
  sent_msgs :: "(string \<times> jsval) list"
  closed_ws :: "nat list"
  next_sock :: nat

text \<open>The state right after \<open>createWhatsAppService\<close>, on a given file system.\<close>

definition createWhatsAppService :: "string option \<Rightarrow> bool \<Rightarrow> string list \<Rightarrow> world" where
  "createWhatsAppService file writable auth =
     \<lparr>socket = None, connected = False, currentQr = JNull, currentQrDataUrl = JNull,
      qrUpdatedAt = JNull, reconnectAttempts = 0, reconnectTimer = None,
      lastDisconnectReason = JNull, me = JNull, eventBuffer = [], queue = [],
      running = False, events_log = file, fs_writable = writable, auth_entries = auth,
      logs = [], timers = [], next_timer = 0, ticks = 0, posts = [], slept = [], sent_msgs = [],
      closed_ws = [], next_sock = 0\<rparr>"

text \<open>\<open>log(message, extra)\<close>: the message is recorded, its second argument is not.\<close>

definition log_line :: "string \<Rightarrow> world \<Rightarrow> world" where
  "log_line msg w = w\<lparr>logs := logs w @ [msg]\<rparr>"

text \<open>\<open>now()\<close>: the next timestamp of the clock.\<close>

definition now :: "env \<Rightarrow> world \<Rightarrow> string \<times> world" where
  "now env w = (now_at env (ticks w), w\<lparr>ticks := Suc (ticks w)\<rparr>)"

text \<open>\<open>setTimeout\<close> returns a fresh handle; \<open>clearTimeout\<close> removes the callback.\<close>

definition setTimeout :: "jsnum \<Rightarrow> world \<Rightarrow> nat \<times> world" where
  "setTimeout delay w =
     (next_timer w,
      w\<lparr>timers := timers w @ [(next_timer w, delay)], next_timer := Suc (next_timer w)\<rparr>)"

definition clearTimeout :: "nat \<Rightarrow> world \<Rightarrow> world" where
  "clearTimeout h w = w\<lparr>timers := filter (\<lambda>t. fst t \<noteq> h) (timers w)\<rparr>"

section \<open>Event journal\<close>

text \<open>
  \<open>appendEvent(dataDir, event, log)\<close>: the \<open>try\<close> block serialises and appends one line;
  the \<open>catch\<close> logs.
\<close>

definition appendEvent :: "env \<Rightarrow> jsval \<Rightarrow> world \<Rightarrow> world" where
  "appendEvent env event w =
     (case JSON_stringify env event of
        None \<Rightarrow> log_line ''Failed to append event log'' w
      | Some js \<Rightarrow>
          let line = js @ [CHR 0x0A] in
          if fs_writable w
          then w\<lparr>events_log := Some (case events_log w of None \<Rightarrow> line | Some c \<Rightarrow> c @ line)\<rparr>
          else log_line ''Failed to append event log'' w)"

text \<open>\<open>s.split('\n')\<close>.\<close>

fun split_lines :: "string \<Rightarrow> string list" where
  "split_lines [] = [[]]"
| "split_lines (c # cs) =
     (if c = CHR 0x0A then [] # split_lines cs
      else (case split_lines cs of [] \<Rightarrow> [[c]] | r # rs \<Rightarrow> (c # r) # rs))"

text \<open>
  \<open>new Date(v).getTime()\<close>: \<open>Inl\<close> when the constructor throws, \<open>None\<close> for an
  invalid date. A number is clipped to the range of time values, a string is parsed, an
  array or object is converted to a string first (for JSON data the conversion gives what
  \<open>String(v)\<close> gives, and throws when it does).
\<close>

definition time_clip :: "int \<Rightarrow> int option" where
  "time_clip t = (if \<bar>t\<bar> \<le> 8640000000000000 then Some t else None)"

fun new_Date :: "env \<Rightarrow> jsval \<Rightarrow> js_error + int option" where
  "new_Date env JUndefined = Inr None"
| "new_Date env JNull = Inr (Some 0)"
| "new_Date env (JBool b) = Inr (Some (if b then 1 else 0))"
| "new_Date env (JNum n) = Inr (time_clip n)"
| "new_Date env (JStr s) = Inr (Date_parse env s)"
| "new_Date env v =
     (case js_String (Number_toString env) v of
        Inl e \<Rightarrow> Inl e
      | Inr s \<Rightarrow> Inr (Date_parse env s))"

text \<open>
  One iteration of the loop of \<open>readEventsBetween\<close>: the events collected so far,
  extended by the row when it parses, has a valid timestamp and lies in the range; the
  \<open>catch\<close> keeps the events collected so far.
\<close>

definition read_row :: "env \<Rightarrow> int \<Rightarrow> int \<Rightarrow> string \<Rightarrow> jsval list \<Rightarrow> jsval list" where
  "read_row env startDate endDate row events =
     (case JSON_parse env row of
        None \<Rightarrow> events
      | Some parsed \<Rightarrow>
          (case get_prop parsed ''timestamp'' of
             Inl e \<Rightarrow> events
           | Inr tsv \<Rightarrow>
               (case new_Date env tsv of
                  Inl e \<Rightarrow> events
                | Inr None \<Rightarrow> events
                | Inr (Some ts) \<Rightarrow>
                    if ts \<ge> startDate \<and> ts \<le> endDate then events @ [parsed] else events)))"

fun read_rows :: "env \<Rightarrow> int \<Rightarrow> int \<Rightarrow> string list \<Rightarrow> jsval list \<Rightarrow> jsval list" where
  "read_rows env startDate endDate [] events = events"
| "read_rows env startDate endDate (row # rows) events =
     read_rows env startDate endDate rows (read_row env startDate endDate row events)"

text \<open>The rows of the file: \<open>content.split('\n').filter(Boolean)\<close>.\<close>

definition rows :: "string \<Rightarrow> string list" where
  "rows content = filter (\<lambda>row. truthy (JStr row)) (split_lines content)"

text \<open>\<open>readEventsBetween(dataDir, startDate, endDate)\<close> on the journal file.\<close>

definition readEventsBetween :: "env \<Rightarrow> string option \<Rightarrow> int \<Rightarrow> int \<Rightarrow> jsval list" where
  "readEventsBetween env file startDate endDate =
     (case file of
        None \<Rightarrow> []
      | Some content \<Rightarrow> read_rows env startDate endDate (rows content) [])"

text \<open>
  \<open>parseDateInput(value, key)\<close>: an error message, or a date or \<open>null\<close>; \<open>Inl\<close>
  when \<open>String(value)\<close> throws.
\<close>

datatype date_input = DateError string | DateValue "int option"

definition parseDateInput :: "env \<Rightarrow> jsval \<Rightarrow> string \<Rightarrow> js_error + date_input" where
  "parseDateInput env v key =
     (if v = JUndefined \<or> v = JNull \<or> v = JStr []
      then Inr (DateValue None)
      else (case js_String (Number_toString env) v of
              Inl e \<Rightarrow> Inl e
            | Inr str \<Rightarrow>
                (case Date_parse env str of
                   None \<Rightarrow> Inr (DateError (''Invalid '' @ key @ ''. Use a valid ISO date string.''))
                 | Some d \<Rightarrow> Inr (DateValue (Some d)))))"

text \<open>
  The \<open>GET /events\<close> route: the status and the JSON body of the response, \<open>Inl\<close> when
  the handler throws before it responds.
\<close>

datatype response = Response (status: int) (body: jsval)

definition date_error :: "date_input \<Rightarrow> string option" where
  "date_error d = (case d of DateError m \<Rightarrow> if m = [] then None else Some m | DateValue v \<Rightarrow> None)"

definition date_value :: "date_input \<Rightarrow> int option" where
  "date_value d = (case d of DateError m \<Rightarrow> None | DateValue v \<Rightarrow> v)"

definition get_events :: "env \<Rightarrow> string option \<Rightarrow> jsval \<Rightarrow> jsval \<Rightarrow> js_error + response" where
  "get_events env file start_date end_date =
     (case parseDateInput env start_date ''start_date'' of
        Inl err \<Rightarrow> Inl err
      | Inr startDate \<Rightarrow>
     (case parseDateInput env end_date ''end_date'' of
        Inl err \<Rightarrow> Inl err
      | Inr endDate \<Rightarrow>
         if date_error startDate \<noteq> None \<or> date_error endDate \<noteq> None
         then Inr (Response 400
                (JObj [(''ok'', JBool False),
                       (''message'',
                        JStr (case date_error startDate of
                                Some m \<Rightarrow> m
                              | None \<Rightarrow> the (date_error endDate))),
                       (''expected'',
                        JObj [(''start_date'',
                               JStr ''ISO-8601 date-time, e.g. 2026-02-13T00:00:00.000Z''),
                              (''end_date'',
                               JStr ''ISO-8601 date-time, e.g. 2026-02-13T23:59:59.999Z'')])]))
         else (case (date_value startDate, date_value endDate) of
                 (Some s, Some e) \<Rightarrow>
                   if s > e
                   then Inr (Response 400
                          (JObj [(''ok'', JBool False),
                                 (''message'',
                                  JStr ''start_date must be less than or equal to end_date.'')]))
                   else (let events = readEventsBetween env file s e
                         in Inr (Response 200
                              (JObj [(''ok'', JBool True),
                                     (''count'', JNum (int (length events))),
                                     (''start_date'', JStr (toISOString env s)),
                                     (''end_date'', JStr (toISOString env e)),
                                     (''events'', JArr events)])))
               | _ \<Rightarrow>
                   Inr (Response 400
                     (JObj [(''ok'', JBool False),
                            (''message'',
                             JStr ''Both start_date and end_date are required query params.'')])))))"

section \<open>Webhook dispatcher\<close>

text \<open>
  One iteration of the loop of \<open>run\<close> on a non-empty queue, given whether \<open>postJson\<close>
  returned (\<open>ok\<close>) or threw, and the value of \<open>Math.random() * 200\<close> for the backoff.
\<close>

definition run_iter :: "env \<Rightarrow> bool \<Rightarrow> real \<Rightarrow> world \<Rightarrow> world" where
  "run_iter env ok rnd w =
     (case queue w of
        [] \<Rightarrow> w
      | it # rest \<Rightarrow>
          let w1 = w\<lparr>posts := posts w @ [(url it, payload it)]\<rparr> in
          if ok then w1\<lparr>queue := rest\<rparr>
          else
            let it' = it\<lparr>attempt := attempt it + 1\<rparr>;
                w2 = w1\<lparr>queue := it' # rest\<rparr>
            in if attempt it' > WEBHOOK_MAX_RETRIES env
               then (log_line ''Webhook dropped after max retries'' w2)\<lparr>queue := rest\<rparr>
               else
                 let delay = backoffMs rnd (attempt it') (WEBHOOK_RETRY_BASE_MS env)
                               (WEBHOOK_RETRY_MAX_MS env);
                     w3 = log_line ''Webhook failed, retrying'' w2
                 in w3\<lparr>slept := slept w3 @ [delay]\<rparr>)"

text \<open>What is left of the retry budget of a queue: the measure of the loop.\<close>

definition budget :: "env \<Rightarrow> item list \<Rightarrow> nat" where
  "budget env q = sum_list (map (\<lambda>it. 1 + nat (WEBHOOK_MAX_RETRIES env + 1 - attempt it)) q)"

text \<open>
  The loop of \<open>run\<close> and the reset of \<open>running\<close> after it; \<open>net k\<close> is the outcome of
  the \<open>k\<close>-th POST, \<open>rnd k\<close> the value of \<open>Math.random() * 200\<close> after it.
\<close>

function run_loop :: "env \<Rightarrow> (nat \<Rightarrow> bool) \<Rightarrow> (nat \<Rightarrow> real) \<Rightarrow> nat \<Rightarrow> world \<Rightarrow> world" where
  "run_loop env net rnd k w =
     (if queue w \<noteq> []
      then run_loop env net rnd (Suc k) (run_iter env (net k) (rnd k) w)
      else w\<lparr>running := False\<rparr>)"
  by pat_completeness auto
termination
  by (relation "measure (\<lambda>(env, net, rnd, k, w). budget env (queue w))")
     (auto simp: run_iter_def budget_def log_line_def Let_def split: list.splits)

declare run_loop.simps [simp del]

definition run :: "env \<Rightarrow> (nat \<Rightarrow> bool) \<Rightarrow> (nat \<Rightarrow> real) \<Rightarrow> world \<Rightarrow> world" where
  "run env net rnd w = (if running w then w else run_loop env net rnd 0 (w\<lparr>running := True\<rparr>))"

text \<open>
  \<open>void run()\<close> inside \<open>enqueue\<close>: the worker runs up to its first \<open>await\<close>, so it sets
  \<open>running\<close> unless a worker is running already; its iterations follow as \<open>run_iter\<close>.
\<close>

definition run_start :: "world \<Rightarrow> world" where
  "run_start w = (if running w then w else w\<lparr>running := True\<rparr>)"

definition enqueue :: "env \<Rightarrow> jsval \<Rightarrow> world \<Rightarrow> world" where
  "enqueue env p w =
     (if \<not> truthy (JStr (WEBHOOK_URL env)) then w
      else
        let (t, w1) = now env w;
            w2 = w1\<lparr>queue := queue w1 @
                   [\<lparr>url = WEBHOOK_URL env, payload = p, attempt = 0, enqueuedAt = t\<rparr>]\<rparr>
        in run_start w2)"

section \<open>Connection lifecycle\<close>

definition mk_event :: "string \<Rightarrow> string \<Rightarrow> jsval \<Rightarrow> jsval" where
  "mk_event t eventType p =
     JObj [(''timestamp'', JStr t), (''eventType'', JStr eventType), (''payload'', p)]"

definition pushEvent :: "env \<Rightarrow> string \<Rightarrow> jsval \<Rightarrow> world \<Rightarrow> world" where
  "pushEvent env eventType p w =
     (let (t, w1) = now env w;
          event = mk_event t eventType p;
          w2 = w1\<lparr>eventBuffer := eventBuffer w1 @ [event]\<rparr>;
          w3 = (if int (length (eventBuffer w2)) > EVENT_RETENTION env
                then w2\<lparr>eventBuffer := tl (eventBuffer w2)\<rparr> else w2);
          w4 = appendEvent env event w3
      in enqueue env event w4)"

definition resetAuthState :: "world \<Rightarrow> world" where
  "resetAuthState w = log_line ''Auth state reset completed'' (w\<lparr>auth_entries := []\<rparr>)"

text \<open>The first statement of \<open>connect\<close> and of \<open>stop\<close>.\<close>

definition clear_reconnect :: "world \<Rightarrow> world" where
  "clear_reconnect w =
     (case reconnectTimer w of
        Some h \<Rightarrow> (clearTimeout h w)\<lparr>reconnectTimer := None\<rparr>
      | None \<Rightarrow> w)"

text \<open>\<open>connect(forceNewLogin)\<close>: the error it rejects with, if any, and the new state.\<close>

definition connect :: "env \<Rightarrow> bool \<Rightarrow> world \<Rightarrow> js_error option \<times> world" where
  "connect env forceNewLogin w =
     (let w1 = clear_reconnect w;
          w2 = (if forceNewLogin then resetAuthState w1 else w1);
          n = next_sock w2;
          w3 = w2\<lparr>next_sock := Suc n\<rparr>
      in case useMultiFileAuthState env n of
           Some e \<Rightarrow> (Some e, w3)
         | None \<Rightarrow>
             let w4 = (if fetchLatestBaileysVersion env n then w3
                       else log_line ''Failed to fetch latest Baileys version, using default'' w3)
             in (case makeWASocket env n of
                   Inl e \<Rightarrow> (Some e, w4)
                 | Inr u \<Rightarrow>
                     (None, w4\<lparr>socket := Some \<lparr>sock_id = n, user = u, ws = True\<rparr>\<rparr>)))"

definition start :: "env \<Rightarrow> bool \<Rightarrow> world \<Rightarrow> js_error option \<times> world" where
  "start env forceNewLogin w =
     (case connect env forceNewLogin w of
        (Some e, w') \<Rightarrow> (Some e, w')
      | (None, w') \<Rightarrow> (None, log_line ''WhatsApp service initialized'' w'))"

definition stop :: "world \<Rightarrow> world" where
  "stop w =
     (let w1 = clear_reconnect w;
          w2 = (case socket w1 of
                  Some s \<Rightarrow> if ws s then w1\<lparr>closed_ws := closed_ws w1 @ [sock_id s]\<rparr> else w1
                | None \<Rightarrow> w1)
      in log_line ''WhatsApp service stopped'' (w2\<lparr>socket := None, connected := False\<rparr>))"

text \<open>
  The pending reconnect callback with handle \<open>h\<close> fires: it leaves the pending set and
  runs \<open>connect(false)\<close>, logging a rejection.
\<close>

definition fire_timer :: "env \<Rightarrow> nat \<Rightarrow> world \<Rightarrow> world" where
  "fire_timer env h w =
     (if h \<in> set (map fst (timers w))
      then (case connect env False (w\<lparr>timers := filter (\<lambda>t. fst t \<noteq> h) (timers w)\<rparr>) of
              (Some e, w') \<Rightarrow> log_line ''Reconnect attempt failed'' w'
            | (None, w') \<Rightarrow> w')
      else w)"

text \<open>The argument of the \<open>connection.update\<close> handler.\<close>

record update =
  connection :: jsval
  lastDisconnect :: jsval
  qr :: jsval

definition on_qr :: "env \<Rightarrow> update \<Rightarrow> world \<Rightarrow> world" where
  "on_qr env upd w =
     (if truthy (qr upd)
      then
        let w1 = w\<lparr>currentQr := qr upd\<rparr>;
            (t, w2) = now env w1;
            w3 = w2\<lparr>qrUpdatedAt := JStr t\<rparr>;
            w4 = w3\<lparr>currentQrDataUrl :=
                    (case qr_toDataURL env (qr upd) of None \<Rightarrow> JNull | Some d \<Rightarrow> JStr d)\<rparr>;
            w5 = log_line ''QR updated, scan required'' w4
        in pushEvent env ''auth.qr.updated'' (JObj [(''qrUpdatedAt'', qrUpdatedAt w5)]) w5
      else w)"

definition on_open :: "env \<Rightarrow> update \<Rightarrow> world \<Rightarrow> world" where
  "on_open env upd w =
     (if connection upd = JStr ''open''
      then
        let w1 = w\<lparr>connected := True, reconnectAttempts := 0, lastDisconnectReason := JNull,
                   currentQr := JNull, currentQrDataUrl := JNull, qrUpdatedAt := JNull\<rparr>;
            w2 = w1\<lparr>me := js_or (case socket w1 of None \<Rightarrow> JUndefined | Some s \<Rightarrow> user s) JNull\<rparr>;
            w3 = log_line ''WhatsApp connected'' w2
        in pushEvent env ''connection.open'' (JObj [(''me'', me w3)]) w3
      else w)"

definition statusCode_of :: "update \<Rightarrow> jsval" where
  "statusCode_of upd =
     get_opt (get_opt (get_opt (lastDisconnect upd) ''error'') ''output'') ''statusCode''"

definition shouldReconnect :: "env \<Rightarrow> update \<Rightarrow> bool" where
  "shouldReconnect env upd = (statusCode_of upd \<noteq> JNum (loggedOut env))"

definition on_close :: "env \<Rightarrow> real \<Rightarrow> update \<Rightarrow> world \<Rightarrow> world" where
  "on_close env rnd upd w =
     (if connection upd = JStr ''close''
      then
        let w1 = w\<lparr>connected := False\<rparr>;
            w2 = w1\<lparr>lastDisconnectReason := js_or (statusCode_of upd) (JStr ''unknown'')\<rparr>;
            w3 = log_line ''WhatsApp disconnected'' w2;
            w4 = pushEvent env ''connection.close''
                   (JObj [(''statusCode'', statusCode_of upd),
                          (''shouldReconnect'', JBool (shouldReconnect env upd))]) w3
        in if shouldReconnect env upd
           then
             let w5 = w4\<lparr>reconnectAttempts := reconnectAttempts w4 + 1\<rparr>;
                 delay = backoffMs rnd (reconnectAttempts w5) (RECONNECT_BASE_MS env)
                           (RECONNECT_MAX_MS env);
                 w6 = log_line ''Scheduling reconnect'' w5;
                 (h, w7) = setTimeout delay w6
             in w7\<lparr>reconnectTimer := Some h\<rparr>
           else w4
      else w)"

text \<open>
  The \<open>connection.update\<close> handler: its three \<open>if\<close> statements in order; \<open>rnd\<close> is the
  value of \<open>Math.random() * 200\<close> should a reconnect be scheduled.
\<close>

definition on_connection_update :: "env \<Rightarrow> real \<Rightarrow> update \<Rightarrow> world \<Rightarrow> world" where
  "on_connection_update env rnd upd w = on_close env rnd upd (on_open env upd (on_qr env upd w))"

section \<open>Service facade\<close>

definition ensureConnected :: "world \<Rightarrow> js_error option" where
  "ensureConnected w =
     (if socket w = None \<or> \<not> connected w
      then Some (JsError (Some 503)
             ''WhatsApp is not connected. Authenticate first and wait for connection.open.'')
      else None)"

text \<open>\<open>socket.sendMessage(jid, content)\<close>, recorded in the trace of sends.\<close>

definition socket_send :: "env \<Rightarrow> string \<Rightarrow> jsval \<Rightarrow> world \<Rightarrow> (js_error + jsval) \<times> world" where
  "socket_send env jid content w =
     (sendMessage env jid content, w\<lparr>sent_msgs := sent_msgs w @ [(jid, content)]\<rparr>)"

definition required_string :: "jsval \<Rightarrow> bool" where
  "required_string v = (\<not> (\<not> truthy v \<or> typeof v \<noteq> ''string''))"

definition sendText :: "env \<Rightarrow> jsval \<Rightarrow> jsval \<Rightarrow> world \<Rightarrow> (js_error + jsval) \<times> world" where
  "sendText env target msg w =
     (case normalizeTarget target of
        Inl e \<Rightarrow> (Inl e, w)
      | Inr jid \<Rightarrow>
          if \<not> required_string msg
          then (Inl (throwBadRequest ''message is required and must be a string.''), w)
          else (case ensureConnected w of
                  Some e \<Rightarrow> (Inl e, w)
                | None \<Rightarrow>
                    (case socket_send env jid (JObj [(''text'', msg)]) w of
                       (Inl e, w1) \<Rightarrow> (Inl e, w1)
                     | (Inr sent, w1) \<Rightarrow>
                         (Inr (JObj [(''jid'', JStr jid), (''sent'', sent)]),
                          pushEvent env ''send.text''
                            (JObj [(''jid'', JStr jid), (''sent'', sent)]) w1))))"

text \<open>
  \<open>sendMedia\<close>; the \<open>document\<close> of the content stands for the buffer decoded from
  \<open>base64\<close>.
\<close>

definition sendMedia ::
  "env \<Rightarrow> jsval \<Rightarrow> jsval \<Rightarrow> jsval \<Rightarrow> jsval \<Rightarrow> world \<Rightarrow> (js_error + jsval) \<times> world" where
  "sendMedia env target base64 filename mimetype w =
     (case normalizeTarget target of
        Inl e \<Rightarrow> (Inl e, w)
      | Inr jid \<Rightarrow>
          if \<not> required_string base64
          then (Inl (throwBadRequest ''base64 is required and must be a base64 string.''), w)
          else if \<not> required_string filename
          then (Inl (throwBadRequest ''filename is required and must be a string.''), w)
          else if \<not> required_string mimetype
          then (Inl (throwBadRequest ''mimetype is required and must be a string.''), w)
          else (case ensureConnected w of
                  Some e \<Rightarrow> (Inl e, w)
                | None \<Rightarrow>
                    (case socket_send env jid
                            (JObj [(''document'', base64), (''fileName'', filename),
                                   (''mimetype'', mimetype)]) w of
                       (Inl e, w1) \<Rightarrow> (Inl e, w1)
                     | (Inr sent, w1) \<Rightarrow>
                         (Inr (JObj [(''jid'', JStr jid), (''fileName'', filename),
                                     (''mimetype'', mimetype), (''sent'', sent)]),
                          pushEvent env ''send.media''
                            (JObj [(''jid'', JStr jid), (''fileName'', filename),
                                   (''mimetype'', mimetype),
                                   (''messageId'', get_opt (get_opt sent ''key'') ''id'')])
                            w1))))"

text \<open>The elements of an array (\<open>[]\<close> for a value that is not one).\<close>

fun elements :: "jsval \<Rightarrow> jsval list" where
  "elements (JArr xs) = xs"
| "elements v = []"

text \<open>
  \<open>pollOptions.map((option) => String(option).trim()).filter(Boolean)\<close>: the callback
  of \<open>map\<close> runs on the options in order, and the first \<open>String(option)\<close> that throws
  ends the call.
\<close>

fun trimmed :: "(int \<Rightarrow> string) \<Rightarrow> jsval list \<Rightarrow> js_error + string list" where
  "trimmed num [] = Inr []"
| "trimmed num (option # rest) =
     (case js_String num option of
        Inl e \<Rightarrow> Inl e
      | Inr str \<Rightarrow>
          (case trimmed num rest of Inl e \<Rightarrow> Inl e | Inr ss \<Rightarrow> Inr (trim str # ss)))"

definition poll_options :: "env \<Rightarrow> jsval \<Rightarrow> js_error + string list" where
  "poll_options env pollOptions =
     (case trimmed (Number_toString env) (elements pollOptions) of
        Inl e \<Rightarrow> Inl e
      | Inr ss \<Rightarrow> Inr (filter (\<lambda>str. truthy (JStr str)) ss))"

definition sendPoll ::
  "env \<Rightarrow> jsval \<Rightarrow> jsval \<Rightarrow> jsval \<Rightarrow> world \<Rightarrow> (js_error + jsval) \<times> world" where
  "sendPoll env target pollText pollOptions w =
     (case normalizeTarget target of
        Inl e \<Rightarrow> (Inl e, w)
      | Inr jid \<Rightarrow>
          if \<not> required_string pollText
          then (Inl (throwBadRequest ''pollText is required and must be a string.''), w)
          else if \<not> isArray pollOptions \<or> length (elements pollOptions) < 2
          then (Inl (throwBadRequest
                  ''pollOptions is required and must be an array with at least 2 options.''), w)
          else (case ensureConnected w of
                  Some e \<Rightarrow> (Inl e, w)
                | None \<Rightarrow>
                   (case poll_options env pollOptions of
                      Inl e \<Rightarrow> (Inl e, w)
                    | Inr options \<Rightarrow>
                    if length options < 2
                    then (Inl (throwBadRequest
                            ''pollOptions must contain at least 2 non-empty options.''), w)
                    else (case socket_send env jid
                                 (JObj [(''poll'',
                                         JObj [(''name'', pollText),
                                               (''values'', JArr (map JStr options)),
                                               (''selectableCount'', JNum 1)])]) w of
                            (Inl e, w1) \<Rightarrow> (Inl e, w1)
                          | (Inr sent, w1) \<Rightarrow>
                              (Inr (JObj [(''jid'', JStr jid), (''pollText'', pollText),
                                          (''options'', JArr (map JStr options)),
                                          (''sent'', sent)]),
                               pushEvent env ''send.poll''
                                 (JObj [(''jid'', JStr jid), (''pollText'', pollText),
                                        (''options'', JArr (map JStr options)),
                                        (''messageId'', get_opt (get_opt sent ''key'') ''id'')])
                                 w1)))))"

text \<open>The error middleware of the route layer: \<open>error.statusCode || 500\<close>.\<close>

definition http_status :: "js_error \<Rightarrow> int" where
  "http_status e = (case statusCode e of None \<Rightarrow> 500 | Some c \<Rightarrow> if c = 0 then 500 else c)"

section \<open>Appending several events, and a concrete environment\<close>

text \<open>The journal after \<open>appendEvent\<close> has been called on each event of a list in turn.\<close>

fun appendEvents :: "env \<Rightarrow> jsval list \<Rightarrow> world \<Rightarrow> world" where
  "appendEvents env [] w = w"
| "appendEvents env (e # es) w = appendEvents env es (appendEvent env e w)"

text \<open>The text of the journal file, empty when the file does not exist.\<close>

definition journal_text :: "world \<Rightarrow> string" where
  "journal_text w = (case events_log w of None \<Rightarrow> [] | Some c \<Rightarrow> c)"

text \<open>
  The instant a journal row carries, as \<open>readEventsBetween\<close> reads it (\<open>None\<close> when the
  row has no timestamp that is a valid date), and whether it lies in a range.
\<close>

definition event_time :: "env \<Rightarrow> jsval \<Rightarrow> int option" where
  "event_time env e =
     (case get_prop e ''timestamp'' of
        Inl err \<Rightarrow> None
      | Inr tsv \<Rightarrow> (case new_Date env tsv of Inl err \<Rightarrow> None | Inr t \<Rightarrow> t))"

definition in_range :: "env \<Rightarrow> int \<Rightarrow> int \<Rightarrow> jsval \<Rightarrow> bool" where
  "in_range env startDate endDate e =
     (case event_time env e of None \<Rightarrow> False | Some ts \<Rightarrow> startDate \<le> ts \<and> ts \<le> endDate)"

text \<open>
  The event as the journal gives it back: what its line parses to, \<open>None\<close> when the
  event does not serialise, its line is empty (no row) or the line does not parse. The
  event read back in a range: the stored event, when its timestamp lies in the range.
\<close>

definition stored :: "env \<Rightarrow> jsval \<Rightarrow> jsval option" where
  "stored env e =
     (case JSON_stringify env e of
        None \<Rightarrow> None
      | Some l \<Rightarrow> if l = [] then None else JSON_parse env l)"

definition read_back :: "env \<Rightarrow> int \<Rightarrow> int \<Rightarrow> jsval \<Rightarrow> jsval option" where
  "read_back env startDate endDate e =
     (case stored env e of
        None \<Rightarrow> None
      | Some parsed \<Rightarrow> if in_range env startDate endDate parsed then Some parsed else None)"

text \<open>
  An environment for the examples: the default values of the module constants (with a
  webhook destination set), 401 for \<open>DisconnectReason.loggedOut\<close>, a clock that counts,
  sessions that always open, and a toy codec standing in for JSON and for ISO dates, in
  which an instant is written in decimal digits and an event is serialised as the
  digits of its timestamp.
\<close>

definition digits_only :: "string \<Rightarrow> bool" where
  "digits_only s = (s \<noteq> [] \<and> list_all (\<lambda>c. (48::nat) \<le> of_char c \<and> (of_char c :: nat) \<le> 57) s)"

definition read_digits :: "string \<Rightarrow> int" where
  "read_digits s = foldl (\<lambda>a c. 10 * a + (of_char c - 48)) 0 s"

definition example_env :: env where
  "example_env =
     \<lparr>WEBHOOK_URL = ''http://localhost/hook'', WEBHOOK_MAX_RETRIES = 8,
      WEBHOOK_RETRY_BASE_MS = 1000, WEBHOOK_RETRY_MAX_MS = 30000, EVENT_RETENTION = 2000,
      RECONNECT_BASE_MS = 1500, RECONNECT_MAX_MS = 30000, loggedOut = 401,
      JSON_stringify = (\<lambda>v. case get_opt v ''timestamp'' of JStr t \<Rightarrow> Some t | _ \<Rightarrow> None),
      JSON_parse = (\<lambda>s. if digits_only s then Some (JObj [(''timestamp'', JStr s)]) else None),
      Date_parse = (\<lambda>s. if digits_only s then Some (read_digits s) else None),
      Number_toString = show_int,
      toISOString = show_int,
      now_at = digits,
      qr_toDataURL = (\<lambda>q. None),
      sendMessage = (\<lambda>jid content. Inr (JObj [(''key'', JObj [(''id'', JStr ''m1'')])])),
      useMultiFileAuthState = (\<lambda>n. None),
      fetchLatestBaileysVersion = (\<lambda>n. True),
      makeWASocket = (\<lambda>n. Inr JUndefined)\<rparr>"

text \<open>
  Example updates of the \<open>connection.update\<close> handler: a close with status code 428
  (connection closed), a close with status code 401 (logged out), and an open.
\<close>

definition close_428 :: update where
  "close_428 =
     \<lparr>connection = JStr ''close'',
      lastDisconnect =
        JObj [(''error'', JObj [(''output'', JObj [(''statusCode'', JNum 428)])])],
      qr = JUndefined\<rparr>"

definition close_401 :: update where
  "close_401 =
     \<lparr>connection = JStr ''close'',
      lastDisconnect =
        JObj [(''error'', JObj [(''output'', JObj [(''statusCode'', JNum 401)])])],
      qr = JUndefined\<rparr>"

definition open_update :: update where
  "open_update = \<lparr>connection = JStr ''open'', lastDisconnect = JUndefined, qr = JUndefined\<rparr>"

text \<open>
  A run of the service: it starts on an empty data directory, and the handler receives
  two close updates with status code 428 before any reconnect timer fires.
\<close>

definition started :: world where
  "started = snd (start example_env False (createWhatsAppService None True []))"

definition closed_twice :: world where
  "closed_twice =
     on_connection_update example_env 0 close_428
       (on_connection_update example_env 0 close_428 started)"

text \<open>
  A second environment, for the journal: JSON and ISO dates as the built-ins give them,
  on three events as \<open>pushEvent\<close> makes them (a session open, a session close without a
  status code, a text sent) and on five instants. \<open>JSON.stringify\<close> does not write a
  property whose value is \<open>undefined\<close>, so the close event is read back without its
  \<open>statusCode\<close>.
\<close>

definition open_event :: jsval where
  "open_event = mk_event ''2026-02-13T09:00:00.000Z'' ''connection.open'' (JObj [(''me'', JNull)])"

definition close_event :: jsval where
  "close_event =
     mk_event ''2026-02-13T10:00:00.000Z'' ''connection.close''
       (JObj [(''statusCode'', JUndefined), (''shouldReconnect'', JBool True)])"

definition close_event_stored :: jsval where
  "close_event_stored =
     mk_event ''2026-02-13T10:00:00.000Z'' ''connection.close''
       (JObj [(''shouldReconnect'', JBool True)])"

definition text_event :: jsval where
  "text_event =
     mk_event ''2026-02-13T11:00:00.000Z'' ''send.text''
       (JObj [(''jid'', JStr ''1@s.whatsapp.net''),
              (''sent'', JObj [(''key'', JObj [(''id'', JStr ''m1'')])])])"

definition open_line :: string where
  \<open>open_line =
     ''{"timestamp":"2026-02-13T09:00:00.000Z","eventType":"connection.open","payload":{"me":null}}''\<close>

definition close_line :: string where
  \<open>close_line =
     ''{"timestamp":"2026-02-13T10:00:00.000Z","eventType":"connection.close","payload":{"shouldReconnect":true}}''\<close>

definition text_line :: string where
  \<open>text_line =
     ''{"timestamp":"2026-02-13T11:00:00.000Z","eventType":"send.text","payload":{"jid":"1@s.whatsapp.net","sent":{"key":{"id":"m1"}}}}''\<close>

definition instants :: "(string \<times> int) list" where
  "instants =
     [(''2026-02-13T09:00:00.000Z'', 1770973200000),
      (''2026-02-13T09:30:00.000Z'', 1770975000000),
      (''2026-02-13T10:00:00.000Z'', 1770976800000),
      (''2026-02-13T10:30:00.000Z'', 1770978600000),
      (''2026-02-13T11:00:00.000Z'', 1770980400000)]"

definition journal_env :: env where
  "journal_env =
     example_env
       \<lparr>JSON_stringify :=
          map_of [(open_event, open_line), (close_event, close_line), (text_event, text_line)],
        JSON_parse :=
          map_of [(open_line, open_event), (close_line, close_event_stored),
                  (text_line, text_event)],
        Date_parse := map_of instants,
        toISOString :=
          (\<lambda>t. case map_of (map (\<lambda>(str, t). (t, str)) instants) t of
                  None \<Rightarrow> [] | Some str \<Rightarrow> str)\<rparr>"

section \<open>Lemmas\<close>

lemma trim_all_ws: "\<forall>c\<in>set s. is_ws c \<Longrightarrow> trim s = []"
  by (auto simp: trim_def dest: set_dropWhileD)






text \<open>
  Why the product is below 200: \<open>Math.random()\<close> is at most \<open>1 - 2^-53\<close>, and the
  product is rounded to a double nearest to it, so no farther from it than the double
  \<open>200 - 2^-45\<close> is.
\<close>

lemma random_product_below_200:
  fixes r p :: real
  assumes "r \<le> 1 - 1 / 2 ^ 53" "\<bar>p - r * 200\<bar> \<le> \<bar>(200 - 1 / 2 ^ 45) - r * 200\<bar>"
  shows "p < 200"
proof -
  have "r * 200 \<le> 200 - 200 / 2 ^ 53" using assms(1) by (simp add: algebra_simps)
  then show ?thesis using assms(2) by (auto simp: abs_le_iff abs_if split: if_splits)
qed

lemma pushEvent_frame:
  "timers (pushEvent env ty p w) = timers w"
  "next_timer (pushEvent env ty p w) = next_timer w"
  "reconnectAttempts (pushEvent env ty p w) = reconnectAttempts w"
  "reconnectTimer (pushEvent env ty p w) = reconnectTimer w"
  "connected (pushEvent env ty p w) = connected w"
  "socket (pushEvent env ty p w) = socket w"
  "currentQr (pushEvent env ty p w) = currentQr w"
  "currentQrDataUrl (pushEvent env ty p w) = currentQrDataUrl w"
  "qrUpdatedAt (pushEvent env ty p w) = qrUpdatedAt w"
  "lastDisconnectReason (pushEvent env ty p w) = lastDisconnectReason w"
  "me (pushEvent env ty p w) = me w"
  "sent_msgs (pushEvent env ty p w) = sent_msgs w"
  "closed_ws (pushEvent env ty p w) = closed_ws w"
  "slept (pushEvent env ty p w) = slept w"
  "posts (pushEvent env ty p w) = posts w"
  "next_sock (pushEvent env ty p w) = next_sock w"
  by (simp_all add: pushEvent_def enqueue_def appendEvent_def now_def log_line_def run_start_def
        Let_def split: option.splits)

lemma on_qr_frame:
  "timers (on_qr env upd w) = timers w"
  "next_timer (on_qr env upd w) = next_timer w"
  "reconnectAttempts (on_qr env upd w) = reconnectAttempts w"
  "reconnectTimer (on_qr env upd w) = reconnectTimer w"
  "connected (on_qr env upd w) = connected w"
  "socket (on_qr env upd w) = socket w"
  by (simp_all add: on_qr_def pushEvent_frame now_def log_line_def Let_def)

lemma normalizeTarget_ws:
  assumes "t \<noteq> []" "\<forall>c\<in>set t. is_ws c"
  shows "normalizeTarget (JStr t) = Inr []"
  using assms by (simp add: normalizeTarget_def trim_all_ws)

lemma normalizeTarget_rejects:
  "(\<exists>e. normalizeTarget v = Inl e) = ((\<forall>s. v \<noteq> JStr s) \<or> v = JStr [])"
  by (cases v) (auto simp: normalizeTarget_def)

lemma pushEvent_sinks:
  "eventBuffer (pushEvent env ty p w) =
     (let b = eventBuffer w @ [mk_event (now_at env (ticks w)) ty p]
      in if int (length b) > EVENT_RETENTION env then tl b else b)"
  "events_log (pushEvent env ty p w) =
     events_log (appendEvent env (mk_event (now_at env (ticks w)) ty p) w)"
  "queue (pushEvent env ty p w) =
     (if WEBHOOK_URL env = [] then queue w
      else queue w @ [\<lparr>url = WEBHOOK_URL env, payload = mk_event (now_at env (ticks w)) ty p,
                        attempt = 0, enqueuedAt = now_at env (Suc (ticks w))\<rparr>])"
  by (simp_all add: pushEvent_def enqueue_def appendEvent_def now_def log_line_def run_start_def
        Let_def split: option.splits)

lemma split_lines_append:
  "split_lines (a @ CHR 0x0A # b) = split_lines a @ split_lines b"
proof (induction a)
  case Nil
  then show ?case by simp
next
  case (Cons c a)
  have ne: "split_lines a \<noteq> []" by (cases a) (auto split: list.splits)
  then obtain r rs where r: "split_lines a = r # rs" by (cases "split_lines a") auto
  show ?case using Cons r by (simp split: list.splits)
qed

lemma split_lines_single: "CHR 0x0A \<notin> set l \<Longrightarrow> split_lines l = [l]"
  by (induction l) auto

lemma rows_Nil: "rows [] = []"
  by (simp add: rows_def)

lemma rows_nl: "rows (a @ CHR 0x0A # b) = rows a @ rows b"
  by (simp add: rows_def split_lines_append)

lemma rows_single: "CHR 0x0A \<notin> set l \<Longrightarrow> rows l = (if l = [] then [] else [l])"
  by (simp add: rows_def split_lines_single)

lemma rows_good_append:
  assumes "c = [] \<or> last c = CHR 0x0A"
  shows "rows (c @ x) = rows c @ rows x"
proof (cases "c = []")
  case True
  then show ?thesis by (simp add: rows_Nil)
next
  case False
  with assms have "c = butlast c @ [CHR 0x0A]" by (metis append_butlast_last_id)
  then obtain c0 where c: "c = c0 @ [CHR 0x0A]" ..
  have "rows (c @ x) = rows c0 @ rows x" using rows_nl[of c0 x] by (simp add: c)
  moreover have "rows c = rows c0" using rows_nl[of c0 "[]"] by (simp add: c rows_Nil)
  ultimately show ?thesis by simp
qed

lemma read_rows_append:
  "read_rows env s e (xs @ ys) acc = read_rows env s e ys (read_rows env s e xs acc)"
  by (induction xs arbitrary: acc) auto

lemma read_row_acc: "read_row env s e row acc = acc @ read_row env s e row []"
  by (simp add: read_row_def split: option.splits sum.splits)

lemma read_row_parsed:
  "read_row env s e l [] =
     (case JSON_parse env l of
        None \<Rightarrow> []
      | Some p \<Rightarrow> if in_range env s e p then [p] else [])"
  by (simp add: read_row_def in_range_def event_time_def split: option.splits sum.splits)

lemma readEventsBetween_rows:
  "readEventsBetween env (events_log w) s e = read_rows env s e (rows (journal_text w)) []"
  by (simp add: readEventsBetween_def journal_text_def rows_Nil split: option.splits)

lemma appendEvent_ok:
  assumes "fs_writable w" "JSON_stringify env x = Some l"
  shows "journal_text (appendEvent env x w) = journal_text w @ l @ [CHR 0x0A]"
    and "fs_writable (appendEvent env x w)"
  using assms by (simp_all add: appendEvent_def journal_text_def Let_def split: option.splits)

lemma read_row_skip:
  assumes "case JSON_parse env l of None \<Rightarrow> True | Some p \<Rightarrow> event_time env p = None"
  shows "read_row env s e l acc = acc"
  using assms by (auto simp: read_row_def event_time_def split: option.splits sum.splits)

lemma appendEvent_fail:
  assumes "JSON_stringify env x = None"
  shows "journal_text (appendEvent env x w) = journal_text w"
    and "fs_writable (appendEvent env x w) = fs_writable w"
  using assms by (simp_all add: appendEvent_def journal_text_def log_line_def)

lemma journal_scan:
  assumes "\<forall>x\<in>set es. \<forall>l. JSON_stringify env x = Some l \<longrightarrow> CHR 0x0A \<notin> set l"
    "fs_writable w" "journal_text w = [] \<or> last (journal_text w) = CHR 0x0A"
  shows "read_rows env s e (rows (journal_text (appendEvents env es w))) [] =
         read_rows env s e (rows (journal_text w)) [] @ List.map_filter (read_back env s e) es"
  using assms
proof (induction es arbitrary: w)
  case Nil
  then show ?case by (simp add: map_filter_simps)
next
  case (Cons x es)
  let ?w = "appendEvent env x w"
  let ?one = "case read_back env s e x of None \<Rightarrow> [] | Some p \<Rightarrow> [p]"
  have rest: "\<forall>x\<in>set es. \<forall>l. JSON_stringify env x = Some l \<longrightarrow> CHR 0x0A \<notin> set l"
    using Cons.prems(1) by simp
  have step: "fs_writable ?w \<and> (journal_text ?w = [] \<or> last (journal_text ?w) = CHR 0x0A)
      \<and> read_rows env s e (rows (journal_text ?w)) [] =
          read_rows env s e (rows (journal_text w)) [] @ ?one"
  proof (cases "JSON_stringify env x")
    case None
    then have "read_back env s e x = None" by (simp add: read_back_def stored_def)
    then show ?thesis using appendEvent_fail[OF None, of w] Cons.prems(2,3) by simp
  next
    case (Some l)
    have c: "journal_text ?w = journal_text w @ l @ [CHR 0x0A]" and fw: "fs_writable ?w"
      using appendEvent_ok[OF Cons.prems(2) Some] by auto
    have nl: "CHR 0x0A \<notin> set l" using Cons.prems(1) Some by simp
    have r: "rows (journal_text ?w) = rows (journal_text w) @ (if l = [] then [] else [l])"
      using rows_good_append[OF Cons.prems(3), of "l @ [CHR 0x0A]"] rows_nl[of l "[]"]
        rows_single[OF nl] by (simp add: c rows_Nil)
    have row: "(if l = [] then [] else read_row env s e l []) = ?one"
      by (simp add: read_row_parsed read_back_def stored_def Some split: option.splits)
    have "read_rows env s e (rows (journal_text ?w)) [] =
          read_rows env s e (rows (journal_text w)) [] @ (if l = [] then [] else read_row env s e l [])"
      using read_row_acc[of env s e l "read_rows env s e (rows (journal_text w)) []"]
      by (simp add: r read_rows_append)
    then show ?thesis using fw c row by simp
  qed
  have "read_rows env s e (rows (journal_text (appendEvents env (x # es) w))) [] =
        read_rows env s e (rows (journal_text ?w)) [] @ List.map_filter (read_back env s e) es"
    using Cons.IH[of ?w] rest step by simp
  then show ?case using step by (simp add: map_filter_simps split: option.splits)
qed

lemma read_back_round_trip:
  "\<forall>x\<in>set es. stored env x = Some x \<Longrightarrow>
   List.map_filter (read_back env s e) es = filter (in_range env s e) es"
  by (induction es) (auto simp: map_filter_simps read_back_def)

lemma js_String_JStr: "js_String num (JStr str) = Inr str"
  by simp

lemma trimmed_length: "trimmed num xs = Inr ss \<Longrightarrow> length ss = length xs"
  by (induction xs arbitrary: ss) (auto split: sum.splits)

lemma poll_options_length:
  assumes "poll_options env po = Inr opts"
  shows "length opts \<le> length (elements po)"
proof -
  from assms obtain ss where ss: "trimmed (Number_toString env) (elements po) = Inr ss"
    and o: "opts = filter (\<lambda>str. truthy (JStr str)) ss"
    by (auto simp: poll_options_def split: sum.splits)
  show ?thesis using trimmed_length[OF ss] by (simp add: o del: truthy.simps)
      (metis length_filter_le trimmed_length[OF ss])
qed

lemma js_String_error:
  "js_String num v = Inl e \<Longrightarrow> e = JsError None ''Cannot convert object to primitive value''"
  "js_strings num vs = Inl e \<Longrightarrow> e = JsError None ''Cannot convert object to primitive value''"
  by (induction num v and num vs arbitrary: e and e rule: js_String_js_strings.induct)
     (auto split: sum.splits if_splits)

lemma trimmed_error:
  "trimmed num xs = Inl e \<Longrightarrow> e = JsError None ''Cannot convert object to primitive value''"
  by (induction xs) (auto split: sum.splits dest: js_String_error(1))

lemma poll_options_error:
  "poll_options env po = Inl e \<Longrightarrow> e = JsError None ''Cannot convert object to primitive value''"
  by (auto simp: poll_options_def split: sum.splits dest: trimmed_error)

lemma corrupt_row_skipped:
  assumes "c1 = [] \<or> last c1 = CHR 0x0A" "CHR 0x0A \<notin> set bad"
    "case JSON_parse env bad of None \<Rightarrow> True | Some p \<Rightarrow> event_time env p = None"
  shows "readEventsBetween env (Some (c1 @ bad @ CHR 0x0A # c2)) s e =
         readEventsBetween env (Some (c1 @ c2)) s e"
proof -
  have sk: "read_row env s e bad acc = acc" for acc
    using assms(3) by (rule read_row_skip)
  have "read_rows env s e (rows bad) acc = acc" for acc
    using sk by (simp add: rows_single[OF assms(2)])
  then show ?thesis
    using rows_good_append[OF assms(1)] rows_nl[of bad c2]
    by (simp add: readEventsBetween_def read_rows_append)
qed

lemma run_iter_fail:
  "run_iter env False r (w\<lparr>queue := it # rest\<rparr>) =
     (if attempt it + 1 > WEBHOOK_MAX_RETRIES env
      then w\<lparr>queue := rest, posts := posts w @ [(url it, payload it)],
              logs := logs w @ [''Webhook dropped after max retries'']\<rparr>
      else w\<lparr>queue := it\<lparr>attempt := attempt it + 1\<rparr> # rest,
              posts := posts w @ [(url it, payload it)],
              logs := logs w @ [''Webhook failed, retrying''],
              slept := slept w @ [backoffMs r (attempt it + 1) (WEBHOOK_RETRY_BASE_MS env)
                                    (WEBHOOK_RETRY_MAX_MS env)]\<rparr>)"
  by (simp add: run_iter_def Let_def log_line_def)

lemma run_loop_step:
  "run_loop env net rnd k (w\<lparr>queue := it # rest\<rparr>) =
   run_loop env net rnd (Suc k) (run_iter env (net k) (rnd k) (w\<lparr>queue := it # rest\<rparr>))"
  by (subst run_loop.simps) simp

lemma run_loop_drop:
  assumes "attempt it + 1 > WEBHOOK_MAX_RETRIES env" "\<not> net k"
  shows "run_loop env net rnd k (w\<lparr>queue := it # rest\<rparr>) =
     run_loop env net rnd (Suc k)
       (w\<lparr>queue := rest,
          posts := posts w @ [(url it, payload it)],
          logs := logs w @ [''Webhook dropped after max retries'']\<rparr>)"
  using assms by (simp only: run_loop_step run_iter_fail if_True)

lemma run_loop_retry:
  assumes "\<not> attempt it + 1 > WEBHOOK_MAX_RETRIES env" "\<not> net k"
  shows "run_loop env net rnd k (w\<lparr>queue := it # rest\<rparr>) =
     run_loop env net rnd (Suc k)
       (w\<lparr>posts := posts w @ [(url it, payload it)],
          logs := logs w @ [''Webhook failed, retrying''],
          slept := slept w @ [backoffMs (rnd k) (attempt it + 1) (WEBHOOK_RETRY_BASE_MS env)
                                    (WEBHOOK_RETRY_MAX_MS env)],
          queue := it\<lparr>attempt := attempt it + 1\<rparr> # rest\<rparr>)"
proof -
  have "run_iter env (net k) (rnd k) (w\<lparr>queue := it # rest\<rparr>) =
       w\<lparr>posts := posts w @ [(url it, payload it)],
          logs := logs w @ [''Webhook failed, retrying''],
          slept := slept w @ [backoffMs (rnd k) (attempt it + 1) (WEBHOOK_RETRY_BASE_MS env)
                                    (WEBHOOK_RETRY_MAX_MS env)],
          queue := it\<lparr>attempt := attempt it + 1\<rparr> # rest\<rparr>"
    using assms by (simp add: run_iter_fail)
  then show ?thesis by (simp only: run_loop_step)
qed

lemma run_loop_exhaust:
  assumes "\<forall>i\<le>n. \<not> net (k + i)"
    "n = nat (WEBHOOK_MAX_RETRIES env - attempt it)"
  shows "run_loop env net rnd k (w\<lparr>queue := it # rest\<rparr>) =
     run_loop env net rnd (k + n + 1)
       (w\<lparr>queue := rest,
          posts := posts w @ replicate (n + 1) (url it, payload it),
          logs := logs w @ replicate n ''Webhook failed, retrying''
                    @ [''Webhook dropped after max retries''],
          slept := slept w @
             map (\<lambda>i. backoffMs (rnd (k + i)) (attempt it + 1 + int i)
                        (WEBHOOK_RETRY_BASE_MS env) (WEBHOOK_RETRY_MAX_MS env)) [0..<n]\<rparr>)"
  using assms
proof (induction n arbitrary: w it k)
  case 0
  then have d: "attempt it + 1 > WEBHOOK_MAX_RETRIES env" by simp
  have nk: "\<not> net k" using "0.prems"(1) by simp
  have "w\<lparr>queue := rest,
          posts := posts w @ replicate (0 + 1) (url it, payload it),
          logs := logs w @ replicate 0 ''Webhook failed, retrying''
                    @ [''Webhook dropped after max retries''],
          slept := slept w @
             map (\<lambda>i. backoffMs (rnd (k + i)) (attempt it + 1 + int i)
                        (WEBHOOK_RETRY_BASE_MS env) (WEBHOOK_RETRY_MAX_MS env)) [0..<0]\<rparr>
      = w\<lparr>queue := rest,
          posts := posts w @ [(url it, payload it)],
          logs := logs w @ [''Webhook dropped after max retries'']\<rparr>"
    by simp
  moreover have "k + 0 + 1 = Suc k" by simp
  ultimately show ?case using run_loop_drop[where net=net and k=k and it=it and env=env and rnd=rnd and w=w and rest=rest, OF d nk] by simp
next
  case (Suc m)
  then have d: "\<not> attempt it + 1 > WEBHOOK_MAX_RETRIES env" by simp
  have nk: "\<not> net k" using Suc.prems(1) by (metis add.right_neutral le0)
  let ?it = "it\<lparr>attempt := attempt it + 1\<rparr>"
  let ?w = "w\<lparr>posts := posts w @ [(url it, payload it)],
              logs := logs w @ [''Webhook failed, retrying''],
              slept := slept w @ [backoffMs (rnd k) (attempt it + 1) (WEBHOOK_RETRY_BASE_MS env)
                                    (WEBHOOK_RETRY_MAX_MS env)]\<rparr>"
  have f: "\<forall>i\<le>m. \<not> net (Suc k + i)"
  proof (intro allI impI)
    fix i assume "i \<le> m"
    then have "Suc i \<le> Suc m" by simp
    with Suc.prems(1) have "\<not> net (k + Suc i)" by blast
    then show "\<not> net (Suc k + i)" by simp
  qed
  have m: "m = nat (WEBHOOK_MAX_RETRIES env - attempt ?it)" using Suc.prems(2) by simp
  have idx: "Suc k + m + 1 = k + Suc m + 1" by simp
  have weq: "?w\<lparr>queue := rest,
          posts := posts ?w @ replicate (m + 1) (url ?it, payload ?it),
          logs := logs ?w @ replicate m ''Webhook failed, retrying''
                    @ [''Webhook dropped after max retries''],
          slept := slept ?w @
             map (\<lambda>i. backoffMs (rnd (Suc k + i)) (attempt ?it + 1 + int i)
                        (WEBHOOK_RETRY_BASE_MS env) (WEBHOOK_RETRY_MAX_MS env)) [0..<m]\<rparr>
     = w\<lparr>queue := rest,
          posts := posts w @ replicate (Suc m + 1) (url it, payload it),
          logs := logs w @ replicate (Suc m) ''Webhook failed, retrying''
                    @ [''Webhook dropped after max retries''],
          slept := slept w @
             map (\<lambda>i. backoffMs (rnd (k + i)) (attempt it + 1 + int i)
                        (WEBHOOK_RETRY_BASE_MS env) (WEBHOOK_RETRY_MAX_MS env)) [0..<Suc m]\<rparr>"
    by (simp add: map_upt_Suc add.assoc del: upt_Suc)
  have "run_loop env net rnd k (w\<lparr>queue := it # rest\<rparr>) =
        run_loop env net rnd (Suc k) (?w\<lparr>queue := ?it # rest\<rparr>)"
    using run_loop_retry[where net=net and k=k and it=it and env=env and rnd=rnd and w=w and rest=rest, OF d nk] by simp
  also have "\<dots> = run_loop env net rnd (Suc k + m + 1)
       (?w\<lparr>queue := rest,
          posts := posts ?w @ replicate (m + 1) (url ?it, payload ?it),
          logs := logs ?w @ replicate m ''Webhook failed, retrying''
                    @ [''Webhook dropped after max retries''],
          slept := slept ?w @
             map (\<lambda>i. backoffMs (rnd (Suc k + i)) (attempt ?it + 1 + int i)
                        (WEBHOOK_RETRY_BASE_MS env) (WEBHOOK_RETRY_MAX_MS env)) [0..<m]\<rparr>)"
    by (rule Suc.IH[where k="Suc k", OF f m])
  finally show ?case unfolding idx weq .
qed

lemma run_loop_next:
  "queue w \<noteq> [] \<Longrightarrow>
   run_loop env net rnd k w = run_loop env net rnd (Suc k) (run_iter env (net k) (rnd k) w)"
  by (subst run_loop.simps) simp

lemmas ex_defs = example_env_def close_428_def close_401_def open_update_def started_def
  start_def connect_def clear_reconnect_def createWhatsAppService_def log_line_def
  shouldReconnect_def statusCode_of_def get_opt_def backoffMs_def js_pow2_def fl_int_def Let_def
  digits.simps[of 0] digits.simps[of 1] digits.simps[of "Suc 0"]

lemmas journal_defs = journal_env_def example_env_def open_event_def close_event_def
  close_event_stored_def text_event_def open_line_def close_line_def text_line_def
  instants_def mk_event_def

lemma close_effect:
  assumes "connection upd = JStr ''close''" "\<not> truthy (qr upd)" "shouldReconnect env upd"
  shows "timers (on_connection_update env r upd w) =
           timers w @ [(next_timer w, backoffMs r (reconnectAttempts w + 1)
                          (RECONNECT_BASE_MS env) (RECONNECT_MAX_MS env))]"
    and "reconnectTimer (on_connection_update env r upd w) = Some (next_timer w)"
    and "reconnectAttempts (on_connection_update env r upd w) = reconnectAttempts w + 1"
    and "next_timer (on_connection_update env r upd w) = Suc (next_timer w)"
    and "socket (on_connection_update env r upd w) = socket w"
    and "next_sock (on_connection_update env r upd w) = next_sock w"
  using assms
  by (simp_all add: on_connection_update_def on_qr_def on_open_def on_close_def Let_def
        pushEvent_frame log_line_def setTimeout_def)

lemma stop_cancels_tracked:
  assumes "reconnectTimer w = Some h"
  shows "h \<notin> set (map fst (timers (stop w)))" "reconnectTimer (stop w) = None"
    "socket (stop w) = None" "\<not> connected (stop w)"
  using assms
  by (auto simp: stop_def clear_reconnect_def clearTimeout_def log_line_def Let_def
        split: option.splits)

lemma stop_closes_session:
  "socket w = Some s \<Longrightarrow> ws s \<Longrightarrow> closed_ws (stop w) = closed_ws w @ [sock_id s]"
  by (auto simp: stop_def clear_reconnect_def clearTimeout_def log_line_def Let_def
        split: option.splits)

lemma stop_idempotent:
  "stop (stop w) = (stop w)\<lparr>logs := logs (stop w) @ [''WhatsApp service stopped'']\<rparr>"
  by (simp add: stop_def clear_reconnect_def clearTimeout_def log_line_def Let_def
        split: option.splits)

lemma connect_clears_tracked:
  assumes "reconnectTimer w = Some h"
  shows "h \<notin> set (map fst (timers (snd (connect env force w))))"
    "reconnectTimer (snd (connect env force w)) = None"
  using assms
  by (auto simp: connect_def clear_reconnect_def clearTimeout_def resetAuthState_def
        log_line_def Let_def split: option.splits sum.splits)

lemma cancelled_timer_never_fires:
  "h \<notin> set (map fst (timers w)) \<Longrightarrow> fire_timer env h w = w"
  by (simp add: fire_timer_def)

section \<open>The claims\<close>

text \<open>
  Claim C1. \<open>JSON.stringify\<close> writes no line feed. Then, for all instants \<open>s \<le> e\<close>,
  the journal query over the events appended so far (each write succeeding, the journal
  file absent at first) returns, in append order, the appended events as the journal
  stores them whose timestamp lies in \<open>[s, e]\<close>: every appended event, whatever it is,
  contributes what its line parses to when that has a timestamp in the range, and
  nothing otherwise. When every appended event is stored as itself, the query returns
  exactly the appended events whose timestamp lies in \<open>[s, e]\<close>. The \<open>GET /events\<close>
  operation answers a valid pair of bounds with that query; when both bounds are converted
  without an exception and one is missing (\<open>undefined\<close>, \<open>null\<close> or the empty string),
  or the start is after the end, it answers 400, and the answer is the same whatever the
  journal file holds. A bound that is a string is converted without an exception.
\<close>

theorem journal_query:
  assumes "\<forall>x l. JSON_stringify env x = Some l \<longrightarrow> CHR 0x0A \<notin> set l"
    "fs_writable w" "events_log w = None"
  shows "(s \<le> e \<longrightarrow>
            readEventsBetween env (events_log (appendEvents env es w)) s e =
              List.map_filter (read_back env s e) es)
    \<and> ((\<forall>x\<in>set es. stored env x = Some x) \<longrightarrow>
            readEventsBetween env (events_log (appendEvents env es w)) s e =
              filter (in_range env s e) es)
    \<and> (parseDateInput env sd ''start_date'' = Inr (DateValue (Some s))
         \<and> parseDateInput env ed ''end_date'' = Inr (DateValue (Some e)) \<and> s \<le> e \<longrightarrow>
          get_events env file sd ed =
            Inr (Response 200
              (JObj [(''ok'', JBool True),
                     (''count'', JNum (int (length (readEventsBetween env file s e)))),
                     (''start_date'', JStr (toISOString env s)),
                     (''end_date'', JStr (toISOString env e)),
                     (''events'', JArr (readEventsBetween env file s e))])))
    \<and> (parseDateInput env sd ''start_date'' = Inr a
         \<and> parseDateInput env ed ''end_date'' = Inr b
         \<and> (a = DateValue None \<or> b = DateValue None
             \<or> (a = DateValue (Some s) \<and> b = DateValue (Some e) \<and> s > e)) \<longrightarrow>
          (\<exists>msg. get_events env file sd ed = Inr (Response 400 msg))
        \<and> get_events env file sd ed = get_events env None sd ed)
    \<and> parseDateInput env JUndefined k = Inr (DateValue None)
    \<and> parseDateInput env JNull k = Inr (DateValue None)
    \<and> parseDateInput env (JStr []) k = Inr (DateValue None)
    \<and> (\<exists>d. parseDateInput env (JStr str) k = Inr d)"
proof -
  have g: "journal_text w = [] \<or> last (journal_text w) = CHR 0x0A"
    using assms(3) by (simp add: journal_text_def)
  have nl: "\<forall>x\<in>set es. \<forall>l. JSON_stringify env x = Some l \<longrightarrow> CHR 0x0A \<notin> set l"
    using assms(1) by blast
  have a: "readEventsBetween env (events_log (appendEvents env es w)) s e =
              List.map_filter (read_back env s e) es"
    using journal_scan[OF nl assms(2) g, of s e] assms(3)
    by (simp add: readEventsBetween_rows journal_text_def rows_Nil)
  have a': "(\<forall>x\<in>set es. stored env x = Some x) \<longrightarrow>
            readEventsBetween env (events_log (appendEvents env es w)) s e =
              filter (in_range env s e) es"
    using a read_back_round_trip[of es env s e] by simp
  have b: "parseDateInput env sd ''start_date'' = Inr (DateValue (Some s))
         \<and> parseDateInput env ed ''end_date'' = Inr (DateValue (Some e)) \<and> s \<le> e \<longrightarrow>
          get_events env file sd ed =
            Inr (Response 200
              (JObj [(''ok'', JBool True),
                     (''count'', JNum (int (length (readEventsBetween env file s e)))),
                     (''start_date'', JStr (toISOString env s)),
                     (''end_date'', JStr (toISOString env e)),
                     (''events'', JArr (readEventsBetween env file s e))]))"
    by (simp add: get_events_def date_error_def date_value_def Let_def)
  have c: "parseDateInput env sd ''start_date'' = Inr a
         \<and> parseDateInput env ed ''end_date'' = Inr b
         \<and> (a = DateValue None \<or> b = DateValue None
             \<or> (a = DateValue (Some s) \<and> b = DateValue (Some e) \<and> s > e)) \<longrightarrow>
          (\<exists>msg. get_events env file sd ed = Inr (Response 400 msg))
        \<and> get_events env file sd ed = get_events env None sd ed"
    by (auto simp: get_events_def date_error_def date_value_def Let_def
          split: date_input.splits option.splits)
  have d: "parseDateInput env JUndefined k = Inr (DateValue None)
    \<and> parseDateInput env JNull k = Inr (DateValue None)
    \<and> parseDateInput env (JStr []) k = Inr (DateValue None)
    \<and> (\<exists>d. parseDateInput env (JStr str) k = Inr d)"
    by (simp add: parseDateInput_def split: option.splits)
  show ?thesis using a a' b c d by blast
qed

text \<open>
  An instance, in the journal environment: the three events are appended, and the range
  from 09:30 to 10:30 holds the close event, as stored.
\<close>

theorem journal_query_witness:
  "list_all (\<lambda>l. CHR 0x0A \<notin> set l) [open_line, close_line, text_line]
   \<and> fs_writable started \<and> events_log started = None
   \<and> (1770975000000::int) \<le> 1770978600000
   \<and> readEventsBetween journal_env
        (events_log (appendEvents journal_env [open_event, close_event, text_event] started))
        1770975000000 1770978600000
       = [close_event_stored]
   \<and> stored journal_env open_event = Some open_event
   \<and> stored journal_env text_event = Some text_event
   \<and> readEventsBetween journal_env
        (events_log (appendEvents journal_env [open_event, text_event] started))
        1770975000000 1770980400000
       = [text_event]
   \<and> parseDateInput journal_env (JStr ''2026-02-13T09:30:00.000Z'') ''start_date''
       = Inr (DateValue (Some 1770975000000))
   \<and> parseDateInput journal_env (JStr ''2026-02-13T10:30:00.000Z'') ''end_date''
       = Inr (DateValue (Some 1770978600000))
   \<and> get_events journal_env (Some (open_line @ [CHR 0x0A] @ close_line @ [CHR 0x0A]))
        (JStr ''2026-02-13T09:30:00.000Z'') (JStr ''2026-02-13T10:30:00.000Z'')
       = Inr (Response 200
           (JObj [(''ok'', JBool True), (''count'', JNum 1),
                  (''start_date'', JStr ''2026-02-13T09:30:00.000Z''),
                  (''end_date'', JStr ''2026-02-13T10:30:00.000Z''),
                  (''events'', JArr [close_event_stored])]))
   \<and> parseDateInput journal_env JUndefined ''start_date'' = Inr (DateValue None)
   \<and> get_events journal_env (Some (open_line @ [CHR 0x0A])) JUndefined
        (JStr ''2026-02-13T10:30:00.000Z'')
       = Inr (Response 400
           (JObj [(''ok'', JBool False),
                  (''message'', JStr ''Both start_date and end_date are required query params.'')]))
   \<and> parseDateInput journal_env (JStr ''2026-02-13T10:30:00.000Z'') ''start_date''
       = Inr (DateValue (Some 1770978600000))
   \<and> parseDateInput journal_env (JStr ''2026-02-13T09:30:00.000Z'') ''end_date''
       = Inr (DateValue (Some 1770975000000))
   \<and> (1770978600000::int) > 1770975000000
   \<and> get_events journal_env (Some (open_line @ [CHR 0x0A]))
        (JStr ''2026-02-13T10:30:00.000Z'') (JStr ''2026-02-13T09:30:00.000Z'')
       = Inr (Response 400
           (JObj [(''ok'', JBool False),
                  (''message'', JStr ''start_date must be less than or equal to end_date.'')]))"
proof -
  let ?t0930 = "JStr ''2026-02-13T09:30:00.000Z''"
  let ?t1030 = "JStr ''2026-02-13T10:30:00.000Z''"
  have l: "list_all (\<lambda>l. CHR 0x0A \<notin> set l) [open_line, close_line, text_line]"
    by (simp add: open_line_def close_line_def text_line_def)
  have h: "\<forall>x l. JSON_stringify journal_env x = Some l \<longrightarrow> CHR 0x0A \<notin> set l"
    using l by (auto simp: journal_env_def split: if_splits)
  have fw: "fs_writable started" and el: "events_log started = None"
    by (simp_all add: ex_defs)
  have st: "stored journal_env open_event = Some open_event"
    "stored journal_env close_event = Some close_event_stored"
    "stored journal_env text_event = Some text_event"
    by (simp_all add: stored_def journal_defs)
  have r: "in_range journal_env 1770975000000 1770978600000 open_event = False"
    "in_range journal_env 1770975000000 1770978600000 close_event_stored = True"
    "in_range journal_env 1770975000000 1770978600000 text_event = False"
    "in_range journal_env 1770975000000 1770980400000 open_event = False"
    "in_range journal_env 1770975000000 1770980400000 text_event = True"
    by (simp_all add: in_range_def event_time_def journal_defs)
  have p: "parseDateInput journal_env ?t0930 k = Inr (DateValue (Some 1770975000000))"
    "parseDateInput journal_env ?t1030 k = Inr (DateValue (Some 1770978600000))"
    "parseDateInput journal_env JUndefined k = Inr (DateValue None)" for k
    by (simp_all add: parseDateInput_def journal_defs)
  have iso: "toISOString journal_env 1770975000000 = ''2026-02-13T09:30:00.000Z''"
    "toISOString journal_env 1770978600000 = ''2026-02-13T10:30:00.000Z''"
    by (simp_all add: journal_defs)
  have nl: "CHR 0x0A \<notin> set open_line" "CHR 0x0A \<notin> set close_line"
    "open_line \<noteq> []" "close_line \<noteq> []"
    by (simp_all add: open_line_def close_line_def)
  have rw: "rows (open_line @ [CHR 0x0A] @ close_line @ [CHR 0x0A]) = [open_line, close_line]"
    using rows_nl[of open_line "close_line @ [CHR 0x0A]"] rows_nl[of close_line "[]"]
    by (simp add: rows_single nl rows_Nil)
  have ps: "JSON_parse journal_env open_line = Some open_event"
    "JSON_parse journal_env close_line = Some close_event_stored"
    by (simp_all add: journal_defs)
  have f: "readEventsBetween journal_env (Some (open_line @ [CHR 0x0A] @ close_line @ [CHR 0x0A]))
             1770975000000 1770978600000 = [close_event_stored]"
    using rw by (simp add: readEventsBetween_def read_row_parsed ps r)
  have a: "readEventsBetween journal_env
        (events_log (appendEvents journal_env [open_event, close_event, text_event] started))
        1770975000000 1770978600000 = [close_event_stored]"
    using journal_query[OF h fw el, where s=1770975000000 and e=1770978600000
        and es="[open_event, close_event, text_event]", THEN conjunct1] st r
    by (simp add: map_filter_simps read_back_def)
  have a': "readEventsBetween journal_env
        (events_log (appendEvents journal_env [open_event, text_event] started))
        1770975000000 1770980400000 = [text_event]"
    using journal_query[OF h fw el, where s=1770975000000 and e=1770980400000
        and es="[open_event, text_event]", THEN conjunct2, THEN conjunct1] st r
    by simp
  have b: "get_events journal_env (Some (open_line @ [CHR 0x0A] @ close_line @ [CHR 0x0A]))
        ?t0930 ?t1030
       = Inr (Response 200
           (JObj [(''ok'', JBool True), (''count'', JNum 1),
                  (''start_date'', JStr ''2026-02-13T09:30:00.000Z''),
                  (''end_date'', JStr ''2026-02-13T10:30:00.000Z''),
                  (''events'', JArr [close_event_stored])]))"
    using journal_query[OF h fw el, where s=1770975000000 and e=1770978600000
        and sd="?t0930" and ed="?t1030"
        and ?file="Some (open_line @ [CHR 0x0A] @ close_line @ [CHR 0x0A])",
        THEN conjunct2, THEN conjunct2, THEN conjunct1]
      p[of "''start_date''"] p[of "''end_date''"] f iso
    by simp
  have c0: "\<exists>msg. get_events journal_env (Some (open_line @ [CHR 0x0A])) JUndefined ?t1030
              = Inr (Response 400 msg)"
    using journal_query[OF h fw el, where sd=JUndefined and ed="?t1030"
        and a="DateValue None" and b="DateValue (Some 1770978600000)"
        and ?file="Some (open_line @ [CHR 0x0A])",
        THEN conjunct2, THEN conjunct2, THEN conjunct2, THEN conjunct1]
      p[of "''start_date''"] p[of "''end_date''"]
    by blast
  have c: "get_events journal_env (Some (open_line @ [CHR 0x0A])) JUndefined ?t1030
       = Inr (Response 400
           (JObj [(''ok'', JBool False),
                  (''message'', JStr ''Both start_date and end_date are required query params.'')]))"
    using c0 p[of "''start_date''"] p[of "''end_date''"]
    by (simp add: get_events_def date_error_def date_value_def)
  have gt: "(1770978600000::int) > 1770975000000" by simp
  have d0: "\<exists>msg. get_events journal_env (Some (open_line @ [CHR 0x0A])) ?t1030 ?t0930
              = Inr (Response 400 msg)"
    using journal_query[OF h fw el, where sd="?t1030" and ed="?t0930"
        and a="DateValue (Some 1770978600000)" and b="DateValue (Some 1770975000000)"
        and s=1770978600000 and e=1770975000000
        and ?file="Some (open_line @ [CHR 0x0A])",
        THEN conjunct2, THEN conjunct2, THEN conjunct2, THEN conjunct1]
      p[of "''start_date''"] p[of "''end_date''"] gt
    by blast
  have d: "get_events journal_env (Some (open_line @ [CHR 0x0A])) ?t1030 ?t0930
       = Inr (Response 400
           (JObj [(''ok'', JBool False),
                  (''message'', JStr ''start_date must be less than or equal to end_date.'')]))"
    using d0 p[of "''start_date''"] p[of "''end_date''"]
    by (simp add: get_events_def date_error_def date_value_def)
  show ?thesis using l fw el a a' st b c d p by simp
qed

text \<open>
  Claim C2. On a session-close update, \<open>shouldReconnect\<close> is false exactly when the
  status code of the disconnect equals \<open>DisconnectReason.loggedOut\<close>; \<open>connected\<close> becomes
  false; when the flag is false the pending timers, the timer handle and
  \<open>reconnectAttempts\<close> are unchanged; otherwise exactly one timer is added, with a fresh
  handle that becomes \<open>reconnectTimer\<close> and the backoff delay of the incremented attempt
  count, and \<open>reconnectAttempts\<close> grows by exactly 1.
\<close>

theorem close_reconnect_policy:
  assumes "connection upd = JStr ''close''"
  shows "(shouldReconnect env upd = False) =
           (get_opt (get_opt (get_opt (lastDisconnect upd) ''error'') ''output'') ''statusCode''
              = JNum (loggedOut env))
    \<and> connected (on_connection_update env r upd w) = False
    \<and> (\<not> shouldReconnect env upd \<longrightarrow>
          timers (on_connection_update env r upd w) = timers w
        \<and> reconnectTimer (on_connection_update env r upd w) = reconnectTimer w
        \<and> reconnectAttempts (on_connection_update env r upd w) = reconnectAttempts w)
    \<and> (shouldReconnect env upd \<longrightarrow>
          timers (on_connection_update env r upd w) =
            timers w @ [(next_timer w,
                         backoffMs r (reconnectAttempts w + 1) (RECONNECT_BASE_MS env)
                           (RECONNECT_MAX_MS env))]
        \<and> reconnectTimer (on_connection_update env r upd w) = Some (next_timer w)
        \<and> reconnectAttempts (on_connection_update env r upd w) = reconnectAttempts w + 1)"
proof -
  have o: "on_open env upd (on_qr env upd w) = on_qr env upd w"
    using assms by (simp add: on_open_def)
  show ?thesis
    using assms
    by (simp add: on_connection_update_def o on_close_def Let_def pushEvent_frame on_qr_frame
          log_line_def setTimeout_def shouldReconnect_def statusCode_of_def)
qed

text \<open>An instance, in the example environment.\<close>

theorem close_reconnect_policy_witness:
  "connection close_428 = JStr ''close''
   \<and> shouldReconnect example_env close_428
   \<and> \<not> connected (on_connection_update example_env 0 close_428 started)
   \<and> timers (on_connection_update example_env 0 close_428 started) = [(0, Num 1500)]
   \<and> reconnectTimer (on_connection_update example_env 0 close_428 started) = Some 0
   \<and> reconnectAttempts (on_connection_update example_env 0 close_428 started) = 1
   \<and> connection close_401 = JStr ''close''
   \<and> \<not> shouldReconnect example_env close_401
   \<and> timers (on_connection_update example_env 0 close_401 started) = []
   \<and> reconnectTimer (on_connection_update example_env 0 close_401 started) = None
   \<and> reconnectAttempts (on_connection_update example_env 0 close_401 started) = 0"
  using close_reconnect_policy[where upd=close_428 and env=example_env and r=0 and w=started]
    close_reconnect_policy[where upd=close_401 and env=example_env and r=0 and w=started]
  by (simp add: ex_defs)

text \<open>
  Claim C3, as the code has it. \<open>sendPoll\<close> checks the target, then the poll text, then
  that \<open>pollOptions\<close> is an array of at least 2 entries, each before
  \<open>ensureConnected\<close>: a call that fails one of them is answered with the 400 error of that
  check whether or not a session is open, and a call with a single option is one of these.
  The options are converted to strings, trimmed and counted after \<open>ensureConnected\<close>: a
  call that passes the three checks fails with the 503 error when no session is open,
  whatever its options normalise to; when a session is open it fails with the 400 error if
  fewer than 2 options remain, and with the exception of the conversion (answered as 500)
  if \<open>String(option)\<close> throws. The options \<open>["A", " ", "B"]\<close> normalise to
  \<open>["A", "B"]\<close>, and with a session open the poll is sent with these values.
\<close>

theorem poll_validation_order:
  "(normalizeTarget target = Inl err \<longrightarrow>
      sendPoll env target pollText po w = (Inl err, w)
    \<and> err = JsError (Some 400) ''target is required and must be a WhatsApp JID string.'')
   \<and> (normalizeTarget target = Inr jid \<and> \<not> required_string pollText \<longrightarrow>
        sendPoll env target pollText po w =
          (Inl (JsError (Some 400) ''pollText is required and must be a string.''), w))
   \<and> (normalizeTarget target = Inr jid \<and> required_string pollText
        \<and> (\<not> isArray po \<or> length (elements po) < 2) \<longrightarrow>
        sendPoll env target pollText po w =
          (Inl (JsError (Some 400)
             ''pollOptions is required and must be an array with at least 2 options.''), w))
   \<and> (normalizeTarget target = Inr jid \<and> required_string pollText \<longrightarrow>
        sendPoll env target pollText (JArr [x]) w =
          (Inl (JsError (Some 400)
             ''pollOptions is required and must be an array with at least 2 options.''), w))
   \<and> (normalizeTarget target = Inr jid \<and> required_string pollText
        \<and> isArray po \<and> 2 \<le> length (elements po) \<and> (socket w = None \<or> \<not> connected w) \<longrightarrow>
        sendPoll env target pollText po w =
          (Inl (JsError (Some 503)
             ''WhatsApp is not connected. Authenticate first and wait for connection.open.''), w))
   \<and> (normalizeTarget target = Inr jid \<and> required_string pollText
        \<and> isArray po \<and> 2 \<le> length (elements po) \<and> socket w \<noteq> None \<and> connected w
        \<and> poll_options env po = Inr opts \<and> length opts < 2 \<longrightarrow>
        sendPoll env target pollText po w =
          (Inl (JsError (Some 400)
             ''pollOptions must contain at least 2 non-empty options.''), w))
   \<and> (normalizeTarget target = Inr jid \<and> required_string pollText
        \<and> isArray po \<and> 2 \<le> length (elements po) \<and> socket w \<noteq> None \<and> connected w
        \<and> poll_options env po = Inl exn \<longrightarrow>
        sendPoll env target pollText po w = (Inl exn, w) \<and> http_status exn = 500)
   \<and> poll_options env (JArr [JStr ''A'', JStr '' '', JStr ''B'']) = Inr [''A'', ''B'']
   \<and> (normalizeTarget target = Inr jid \<and> required_string pollText
        \<and> socket w \<noteq> None \<and> connected w \<longrightarrow>
        sent_msgs (snd (sendPoll env target pollText (JArr [JStr ''A'', JStr '' '', JStr ''B'']) w)) =
          sent_msgs w @
            [(jid, JObj [(''poll'',
                          JObj [(''name'', pollText),
                                (''values'', JArr [JStr ''A'', JStr ''B'']),
                                (''selectableCount'', JNum 1)])])])"
proof -
  have p: "poll_options env (JArr [JStr ''A'', JStr '' '', JStr ''B'']) = Inr [''A'', ''B'']"
    by (simp add: poll_options_def trim_def is_ws_def)
  have t: "normalizeTarget target = Inl err \<longrightarrow>
      sendPoll env target pollText po w = (Inl err, w)
    \<and> err = JsError (Some 400) ''target is required and must be a WhatsApp JID string.''"
    by (auto simp: sendPoll_def normalizeTarget_def split: if_splits)
  have q: "normalizeTarget target = Inr jid \<and> \<not> required_string pollText \<longrightarrow>
        sendPoll env target pollText po w =
          (Inl (JsError (Some 400) ''pollText is required and must be a string.''), w)"
    by (simp add: sendPoll_def throwBadRequest_def)
  have a: "normalizeTarget target = Inr jid \<and> required_string pollText
        \<and> (\<not> isArray po \<or> length (elements po) < 2) \<longrightarrow>
        sendPoll env target pollText po w =
          (Inl (JsError (Some 400)
             ''pollOptions is required and must be an array with at least 2 options.''), w)"
    by (auto simp: sendPoll_def throwBadRequest_def)
  have b: "normalizeTarget target = Inr jid \<and> required_string pollText \<longrightarrow>
        sendPoll env target pollText (JArr [x]) w =
          (Inl (JsError (Some 400)
             ''pollOptions is required and must be an array with at least 2 options.''), w)"
    by (simp add: sendPoll_def throwBadRequest_def)
  have c: "normalizeTarget target = Inr jid \<and> required_string pollText
        \<and> isArray po \<and> 2 \<le> length (elements po) \<and> (socket w = None \<or> \<not> connected w) \<longrightarrow>
        sendPoll env target pollText po w =
          (Inl (JsError (Some 503)
             ''WhatsApp is not connected. Authenticate first and wait for connection.open.''), w)"
    by (auto simp: sendPoll_def ensureConnected_def)
  have d: "normalizeTarget target = Inr jid \<and> required_string pollText
        \<and> isArray po \<and> 2 \<le> length (elements po) \<and> socket w \<noteq> None \<and> connected w
        \<and> poll_options env po = Inr opts \<and> length opts < 2 \<longrightarrow>
        sendPoll env target pollText po w =
          (Inl (JsError (Some 400)
             ''pollOptions must contain at least 2 non-empty options.''), w)"
    by (auto simp: sendPoll_def ensureConnected_def throwBadRequest_def)
  have x: "normalizeTarget target = Inr jid \<and> required_string pollText
        \<and> isArray po \<and> 2 \<le> length (elements po) \<and> socket w \<noteq> None \<and> connected w
        \<and> poll_options env po = Inl exn \<longrightarrow>
        sendPoll env target pollText po w = (Inl exn, w) \<and> http_status exn = 500"
    using poll_options_error[of env po exn]
    by (auto simp: sendPoll_def ensureConnected_def http_status_def)
  have e: "normalizeTarget target = Inr jid \<and> required_string pollText
        \<and> socket w \<noteq> None \<and> connected w \<longrightarrow>
        sent_msgs (snd (sendPoll env target pollText (JArr [JStr ''A'', JStr '' '', JStr ''B'']) w)) =
          sent_msgs w @
            [(jid, JObj [(''poll'',
                          JObj [(''name'', pollText),
                                (''values'', JArr [JStr ''A'', JStr ''B'']),
                                (''selectableCount'', JNum 1)])])]"
    by (auto simp: sendPoll_def ensureConnected_def p socket_send_def pushEvent_frame Let_def
          split: sum.splits)
  show ?thesis using t q a b c d x e p by blast
qed

text \<open>An instance, in the example environment.\<close>

theorem poll_validation_order_witness:
  "normalizeTarget JNull =
       Inl (JsError (Some 400) ''target is required and must be a WhatsApp JID string.'')
   \<and> fst (sendPoll example_env JNull JNull JNull (started\<lparr>connected := True\<rparr>)) =
       Inl (JsError (Some 400) ''target is required and must be a WhatsApp JID string.'')
   \<and> normalizeTarget (JStr ''123@s.whatsapp.net'') = Inr ''123@s.whatsapp.net''
   \<and> \<not> required_string (JNum 7)
   \<and> fst (sendPoll example_env (JStr ''123@s.whatsapp.net'') (JNum 7) JNull started) =
       Inl (JsError (Some 400) ''pollText is required and must be a string.'')
   \<and> required_string (JStr ''Lunch?'')
   \<and> fst (sendPoll example_env (JStr ''123@s.whatsapp.net'') (JStr ''Lunch?'') (JArr [JStr ''A''])
           started) =
       Inl (JsError (Some 400)
         ''pollOptions is required and must be an array with at least 2 options.'')
   \<and> isArray (JArr [JStr ''A'', JStr '' '']) \<and> 2 \<le> length (elements (JArr [JStr ''A'', JStr '' '']))
   \<and> poll_options example_env (JArr [JStr ''A'', JStr '' '']) = Inr [''A'']
   \<and> \<not> connected started
   \<and> fst (sendPoll example_env (JStr ''123@s.whatsapp.net'') (JStr ''Lunch?'')
           (JArr [JStr ''A'', JStr '' '']) started) =
       Inl (JsError (Some 503)
         ''WhatsApp is not connected. Authenticate first and wait for connection.open.'')
   \<and> socket (started\<lparr>connected := True\<rparr>) \<noteq> None \<and> connected (started\<lparr>connected := True\<rparr>)
   \<and> fst (sendPoll example_env (JStr ''123@s.whatsapp.net'') (JStr ''Lunch?'')
           (JArr [JStr ''A'', JStr '' '']) (started\<lparr>connected := True\<rparr>)) =
       Inl (JsError (Some 400) ''pollOptions must contain at least 2 non-empty options.'')
   \<and> isArray (JArr [JObj [(''toString'', JNum 1)], JStr '' ''])
   \<and> 2 \<le> length (elements (JArr [JObj [(''toString'', JNum 1)], JStr '' '']))
   \<and> poll_options example_env (JArr [JObj [(''toString'', JNum 1)], JStr '' '']) =
       Inl (JsError None ''Cannot convert object to primitive value'')
   \<and> fst (sendPoll example_env (JStr ''123@s.whatsapp.net'') (JStr ''Lunch?'')
           (JArr [JObj [(''toString'', JNum 1)], JStr '' '']) (started\<lparr>connected := True\<rparr>)) =
       Inl (JsError None ''Cannot convert object to primitive value'')
   \<and> fst (sendPoll example_env (JStr ''123@s.whatsapp.net'') (JStr ''Lunch?'')
           (JArr [JObj [(''toString'', JNum 1)], JStr '' '']) started) =
       Inl (JsError (Some 503)
         ''WhatsApp is not connected. Authenticate first and wait for connection.open.'')
   \<and> sent_msgs (snd (sendPoll example_env (JStr ''123@s.whatsapp.net'') (JStr ''Lunch?'')
           (JArr [JStr ''A'', JStr '' '', JStr ''B'']) (started\<lparr>connected := True\<rparr>))) =
       [(''123@s.whatsapp.net'',
         JObj [(''poll'', JObj [(''name'', JStr ''Lunch?''),
                                (''values'', JArr [JStr ''A'', JStr ''B'']),
                                (''selectableCount'', JNum 1)])])]"
proof -
  let ?jid = "JStr ''123@s.whatsapp.net''"
  let ?bad = "JArr [JObj [(''toString'', JNum 1)], JStr '' '']"
  let ?up = "started\<lparr>connected := True\<rparr>"
  have n0: "normalizeTarget JNull =
       Inl (JsError (Some 400) ''target is required and must be a WhatsApp JID string.'')"
    by (simp add: normalizeTarget_def)
  have n: "normalizeTarget ?jid = Inr ''123@s.whatsapp.net''"
    by (simp add: normalizeTarget_def trim_def is_ws_def)
  have r0: "\<not> required_string (JNum 7)" by (simp add: required_string_def)
  have r: "required_string (JStr ''Lunch?'')" by (simp add: required_string_def)
  have o: "poll_options example_env (JArr [JStr ''A'', JStr '' '']) = Inr [''A'']"
    by (simp add: poll_options_def trim_def is_ws_def)
  have ob: "poll_options example_env ?bad =
       Inl (JsError None ''Cannot convert object to primitive value'')"
    by (simp add: poll_options_def)
  have s: "socket started \<noteq> None" "\<not> connected started" "sent_msgs started = []"
    by (simp_all add: ex_defs)
  note t = poll_validation_order[where env=example_env and jid="''123@s.whatsapp.net''"]
  have 0: "fst (sendPoll example_env JNull JNull JNull ?up) =
       Inl (JsError (Some 400) ''target is required and must be a WhatsApp JID string.'')"
    using t[where target=JNull and pollText=JNull and po=JNull and w="?up"
        and err="JsError (Some 400) ''target is required and must be a WhatsApp JID string.''"]
      n0 by simp
  have 1: "fst (sendPoll example_env ?jid (JNum 7) JNull started) =
       Inl (JsError (Some 400) ''pollText is required and must be a string.'')"
    using t[where target="?jid" and pollText="JNum 7" and po=JNull and w=started] n r0 by simp
  note u = t[where target="?jid" and pollText="JStr ''Lunch?''"]
  have 2: "fst (sendPoll example_env ?jid (JStr ''Lunch?'') (JArr [JStr ''A'']) started) =
       Inl (JsError (Some 400)
         ''pollOptions is required and must be an array with at least 2 options.'')"
    using u[where w=started and x="JStr ''A''"] n r by simp
  have 3: "fst (sendPoll example_env ?jid (JStr ''Lunch?'') (JArr [JStr ''A'', JStr '' '']) started) =
       Inl (JsError (Some 503)
         ''WhatsApp is not connected. Authenticate first and wait for connection.open.'')"
    using u[where w=started and po="JArr [JStr ''A'', JStr '' '']"] n r s by simp
  have 4: "fst (sendPoll example_env ?jid (JStr ''Lunch?'') (JArr [JStr ''A'', JStr '' '']) ?up) =
       Inl (JsError (Some 400) ''pollOptions must contain at least 2 non-empty options.'')"
    using u[where w="?up" and po="JArr [JStr ''A'', JStr '' '']" and opts="[''A'']"] n r s o
    by simp
  have 5: "fst (sendPoll example_env ?jid (JStr ''Lunch?'') ?bad ?up) =
       Inl (JsError None ''Cannot convert object to primitive value'')"
    using u[where w="?up" and po="?bad"
        and exn="JsError None ''Cannot convert object to primitive value''"] n r s ob
    by simp
  have 6: "fst (sendPoll example_env ?jid (JStr ''Lunch?'') ?bad started) =
       Inl (JsError (Some 503)
         ''WhatsApp is not connected. Authenticate first and wait for connection.open.'')"
    using u[where w=started and po="?bad"] n r s by simp
  have 7: "sent_msgs (snd (sendPoll example_env ?jid (JStr ''Lunch?'')
           (JArr [JStr ''A'', JStr '' '', JStr ''B'']) ?up)) =
       [(''123@s.whatsapp.net'',
         JObj [(''poll'', JObj [(''name'', JStr ''Lunch?''),
                                (''values'', JArr [JStr ''A'', JStr ''B'']),
                                (''selectableCount'', JNum 1)])])]"
    using u[where w="?up"] n r s by simp
  show ?thesis using n0 n r0 r o ob s 0 1 2 3 4 5 6 7 by simp
qed

text \<open>
  The claim as stated fails: with no session open, two entries of which one is blank are
  answered with the 503 not-connected error, not with a validation error.
\<close>

theorem poll_validation_counterexample:
  "required_string (JStr ''Lunch?'')
   \<and> normalizeTarget (JStr ''123@s.whatsapp.net'') = Inr ''123@s.whatsapp.net''
   \<and> poll_options example_env (JArr [JStr ''A'', JStr '' '']) = Inr [''A'']
   \<and> length [''A''] < 2
   \<and> socket (createWhatsAppService None True []) = None
   \<and> fst (sendPoll example_env (JStr ''123@s.whatsapp.net'') (JStr ''Lunch?'')
           (JArr [JStr ''A'', JStr '' '']) (createWhatsAppService None True [])) =
       Inl (JsError (Some 503)
         ''WhatsApp is not connected. Authenticate first and wait for connection.open.'')
   \<and> http_status (JsError (Some 503)
         ''WhatsApp is not connected. Authenticate first and wait for connection.open.'') \<noteq> 400"
  by (simp add: sendPoll_def normalizeTarget_def trim_def is_ws_def required_string_def
        ensureConnected_def createWhatsAppService_def poll_options_def http_status_def)

text \<open>
  Claim C4. A failed delivery increments the attempt count of the head item and drops the
  item, with a log line, exactly when the new count exceeds \<open>WEBHOOK_MAX_RETRIES\<close>;
  otherwise the item stays at the head of the queue and the worker sleeps. When every
  delivery of a fresh head item fails, the worker posts it \<open>nat WEBHOOK_MAX_RETRIES + 1\<close>
  times, drops it, and goes on to the next item, whose successful delivery removes it; on
  a queue of these two items the worker ends with an empty queue and \<open>running\<close> reset.
\<close>

theorem failing_item_dropped:
  assumes "attempt a = 0"
    "\<forall>i\<le>nat (WEBHOOK_MAX_RETRIES env). \<not> net (k + i)"
    "net (k + nat (WEBHOOK_MAX_RETRIES env) + 1)"
  shows "(\<forall>it r. run_iter env False r (w\<lparr>queue := it # rest\<rparr>) =
           (if attempt it + 1 > WEBHOOK_MAX_RETRIES env
            then w\<lparr>queue := rest, posts := posts w @ [(url it, payload it)],
                    logs := logs w @ [''Webhook dropped after max retries'']\<rparr>
            else w\<lparr>queue := it\<lparr>attempt := attempt it + 1\<rparr> # rest,
                    posts := posts w @ [(url it, payload it)],
                    logs := logs w @ [''Webhook failed, retrying''],
                    slept := slept w @ [backoffMs r (attempt it + 1) (WEBHOOK_RETRY_BASE_MS env)
                                          (WEBHOOK_RETRY_MAX_MS env)]\<rparr>))
    \<and> run_loop env net rnd k (w\<lparr>queue := a # b # rest\<rparr>) =
        run_loop env net rnd (k + nat (WEBHOOK_MAX_RETRIES env) + 2)
          (w\<lparr>queue := rest,
             posts := posts w @ replicate (nat (WEBHOOK_MAX_RETRIES env) + 1) (url a, payload a)
                        @ [(url b, payload b)],
             logs := logs w @ replicate (nat (WEBHOOK_MAX_RETRIES env)) ''Webhook failed, retrying''
                        @ [''Webhook dropped after max retries''],
             slept := slept w @
               map (\<lambda>i. backoffMs (rnd (k + i)) (1 + int i)
                          (WEBHOOK_RETRY_BASE_MS env) (WEBHOOK_RETRY_MAX_MS env))
                 [0..<nat (WEBHOOK_MAX_RETRIES env)]\<rparr>)
    \<and> run_loop env net rnd k (w\<lparr>queue := [a, b]\<rparr>) =
          w\<lparr>queue := [], running := False,
             posts := posts w @ replicate (nat (WEBHOOK_MAX_RETRIES env) + 1) (url a, payload a)
                        @ [(url b, payload b)],
             logs := logs w @ replicate (nat (WEBHOOK_MAX_RETRIES env)) ''Webhook failed, retrying''
                        @ [''Webhook dropped after max retries''],
             slept := slept w @
               map (\<lambda>i. backoffMs (rnd (k + i)) (1 + int i)
                          (WEBHOOK_RETRY_BASE_MS env) (WEBHOOK_RETRY_MAX_MS env))
                 [0..<nat (WEBHOOK_MAX_RETRIES env)]\<rparr>"
proof -
  let ?n = "nat (WEBHOOK_MAX_RETRIES env)"
  let ?P = "posts w @ replicate (?n + 1) (url a, payload a)"
  let ?L = "logs w @ replicate ?n ''Webhook failed, retrying''
              @ [''Webhook dropped after max retries'']"
  let ?S = "slept w @ map (\<lambda>i. backoffMs (rnd (k + i)) (1 + int i)
              (WEBHOOK_RETRY_BASE_MS env) (WEBHOOK_RETRY_MAX_MS env)) [0..<?n]"
  let ?K = "k + ?n + 1"
  have n: "?n = nat (WEBHOOK_MAX_RETRIES env - attempt a)" using assms(1) by simp
  have ex: "run_loop env net rnd k (w\<lparr>queue := a # r\<rparr>) =
            run_loop env net rnd ?K (w\<lparr>queue := r, posts := ?P, logs := ?L, slept := ?S\<rparr>)"
    for r
    using run_loop_exhaust[where net=net and k=k and n="?n" and it=a and env=env and rnd=rnd
            and w=w and rest=r, OF assms(2) n]
    by (simp add: assms(1))
  have it: "run_iter env (net ?K) (rnd ?K)
              (w\<lparr>queue := b # r, posts := ?P, logs := ?L, slept := ?S\<rparr>) =
            w\<lparr>queue := r, posts := ?P @ [(url b, payload b)], logs := ?L, slept := ?S\<rparr>"
    for r
    using assms(3) by (simp add: run_iter_def Let_def)
  have st: "run_loop env net rnd ?K (w\<lparr>queue := b # r, posts := ?P, logs := ?L, slept := ?S\<rparr>) =
            run_loop env net rnd (Suc ?K)
              (w\<lparr>queue := r, posts := ?P @ [(url b, payload b)], logs := ?L, slept := ?S\<rparr>)"
    for r
    unfolding it[symmetric] by (rule run_loop_next) simp
  have fin: "run_loop env net rnd (Suc ?K)
               (w\<lparr>queue := [], posts := ?P @ [(url b, payload b)], logs := ?L, slept := ?S\<rparr>) =
             w\<lparr>queue := [], running := False, posts := ?P @ [(url b, payload b)],
                logs := ?L, slept := ?S\<rparr>"
    by (subst run_loop.simps) simp
  have idx: "k + ?n + 2 = Suc ?K" by simp
  have 1: "\<forall>it r. run_iter env False r (w\<lparr>queue := it # rest\<rparr>) =
           (if attempt it + 1 > WEBHOOK_MAX_RETRIES env
            then w\<lparr>queue := rest, posts := posts w @ [(url it, payload it)],
                    logs := logs w @ [''Webhook dropped after max retries'']\<rparr>
            else w\<lparr>queue := it\<lparr>attempt := attempt it + 1\<rparr> # rest,
                    posts := posts w @ [(url it, payload it)],
                    logs := logs w @ [''Webhook failed, retrying''],
                    slept := slept w @ [backoffMs r (attempt it + 1) (WEBHOOK_RETRY_BASE_MS env)
                                          (WEBHOOK_RETRY_MAX_MS env)]\<rparr>)"
    by (simp only: run_iter_fail) simp
  have 2: "run_loop env net rnd k (w\<lparr>queue := a # b # rest\<rparr>) =
        run_loop env net rnd (k + ?n + 2)
          (w\<lparr>queue := rest, posts := ?P @ [(url b, payload b)], logs := ?L, slept := ?S\<rparr>)"
    unfolding idx ex st ..
  have 3: "run_loop env net rnd k (w\<lparr>queue := [a, b]\<rparr>) =
          w\<lparr>queue := [], running := False, posts := ?P @ [(url b, payload b)],
             logs := ?L, slept := ?S\<rparr>"
    unfolding ex st fin ..
  show ?thesis using 1 2 3 by simp
qed

text \<open>An instance, in the example environment.\<close>

theorem failing_item_dropped_witness:
  "attempt \<lparr>url = ''u'', payload = JNum 1, attempt = 0, enqueuedAt = ''0''\<rparr> = 0
   \<and> \<not> (\<exists>i\<le>nat (WEBHOOK_MAX_RETRIES example_env). 9 \<le> 0 + i)
   \<and> 9 \<le> 0 + nat (WEBHOOK_MAX_RETRIES example_env) + 1
   \<and> queue (run_loop example_env (\<lambda>i. 9 \<le> i) (\<lambda>i. 0) 0
        (started\<lparr>queue := [\<lparr>url = ''u'', payload = JNum 1, attempt = 0, enqueuedAt = ''0''\<rparr>,
                              \<lparr>url = ''u'', payload = JNum 2, attempt = 0, enqueuedAt = ''1''\<rparr>]\<rparr>)) = []
   \<and> posts (run_loop example_env (\<lambda>i. 9 \<le> i) (\<lambda>i. 0) 0
        (started\<lparr>queue := [\<lparr>url = ''u'', payload = JNum 1, attempt = 0, enqueuedAt = ''0''\<rparr>,
                              \<lparr>url = ''u'', payload = JNum 2, attempt = 0, enqueuedAt = ''1''\<rparr>]\<rparr>))
       = replicate 9 (''u'', JNum 1) @ [(''u'', JNum 2)]
   \<and> \<not> running (run_loop example_env (\<lambda>i. 9 \<le> i) (\<lambda>i. 0) 0
        (started\<lparr>queue := [\<lparr>url = ''u'', payload = JNum 1, attempt = 0, enqueuedAt = ''0''\<rparr>,
                              \<lparr>url = ''u'', payload = JNum 2, attempt = 0, enqueuedAt = ''1''\<rparr>]\<rparr>))"
proof -
  have m: "nat (WEBHOOK_MAX_RETRIES example_env) = 8" by (simp add: example_env_def)
  have h1: "attempt \<lparr>url = ''u'', payload = JNum 1, attempt = 0, enqueuedAt = ''0''\<rparr> = 0" by simp
  have h2: "\<forall>i\<le>nat (WEBHOOK_MAX_RETRIES example_env). \<not> 9 \<le> 0 + i" by (simp add: m)
  have h3: "9 \<le> 0 + nat (WEBHOOK_MAX_RETRIES example_env) + 1" by (simp add: m)
  have p: "posts started = []" by (simp add: ex_defs)
  show ?thesis
    using failing_item_dropped[where net="\<lambda>i. 9 \<le> i" and k=0 and env=example_env
        and a="\<lparr>url = ''u'', payload = JNum 1, attempt = 0, enqueuedAt = ''0''\<rparr>"
        and b="\<lparr>url = ''u'', payload = JNum 2, attempt = 0, enqueuedAt = ''1''\<rparr>"
        and rnd="\<lambda>i. 0" and w=started, OF h1 h2 h3, THEN conjunct2, THEN conjunct2]
      h1 h2 h3 p
    by (simp add: m)
qed

text \<open>
  Claim C5. While no socket exists or \<open>connected\<close> is false, \<open>sendText\<close>,
  \<open>sendMedia\<close> and \<open>sendPoll\<close> with fields that pass validation fail with the 503
  not-connected error and leave the whole state unchanged: nothing is sent and nothing is
  appended to the journal.
\<close>

theorem not_connected_send:
  assumes "socket w = None \<or> \<not> connected w"
  shows "(normalizeTarget target = Inr jid \<and> required_string msg \<longrightarrow>
            sendText env target msg w =
              (Inl (JsError (Some 503)
                 ''WhatsApp is not connected. Authenticate first and wait for connection.open.''), w))
    \<and> (normalizeTarget target = Inr jid \<and> required_string base64 \<and> required_string filename
          \<and> required_string mimetype \<longrightarrow>
            sendMedia env target base64 filename mimetype w =
              (Inl (JsError (Some 503)
                 ''WhatsApp is not connected. Authenticate first and wait for connection.open.''), w))
    \<and> (normalizeTarget target = Inr jid \<and> required_string pollText \<and> isArray pollOptions
          \<and> 2 \<le> length (elements pollOptions) \<longrightarrow>
            sendPoll env target pollText pollOptions w =
              (Inl (JsError (Some 503)
                 ''WhatsApp is not connected. Authenticate first and wait for connection.open.''), w))
    \<and> http_status (JsError (Some 503)
         ''WhatsApp is not connected. Authenticate first and wait for connection.open.'') = 503"
  using assms
  by (auto simp: sendText_def sendMedia_def sendPoll_def ensureConnected_def http_status_def)

text \<open>An instance, in the example environment.\<close>

theorem not_connected_send_witness:
  "socket (createWhatsAppService None True []) = None
   \<and> normalizeTarget (JStr ''123@s.whatsapp.net'') = Inr ''123@s.whatsapp.net''
   \<and> required_string (JStr ''hello'')
   \<and> isArray (JArr [JStr ''A'', JStr ''B''])
   \<and> 2 \<le> length (elements (JArr [JStr ''A'', JStr ''B'']))
   \<and> sendText example_env (JStr ''123@s.whatsapp.net'') (JStr ''hello'')
         (createWhatsAppService None True []) =
       (Inl (JsError (Some 503)
          ''WhatsApp is not connected. Authenticate first and wait for connection.open.''),
        createWhatsAppService None True [])
   \<and> sendMedia example_env (JStr ''123@s.whatsapp.net'') (JStr ''hello'') (JStr ''hello'')
         (JStr ''hello'') (createWhatsAppService None True []) =
       (Inl (JsError (Some 503)
          ''WhatsApp is not connected. Authenticate first and wait for connection.open.''),
        createWhatsAppService None True [])
   \<and> sendPoll example_env (JStr ''123@s.whatsapp.net'') (JStr ''hello'')
         (JArr [JStr ''A'', JStr ''B'']) (createWhatsAppService None True []) =
       (Inl (JsError (Some 503)
          ''WhatsApp is not connected. Authenticate first and wait for connection.open.''),
        createWhatsAppService None True [])"
proof -
  have h: "socket (createWhatsAppService None True []) = None
      \<or> \<not> connected (createWhatsAppService None True [])"
    by (simp add: createWhatsAppService_def)
  have h0: "socket (createWhatsAppService None True []) = None"
    by (simp add: createWhatsAppService_def)
  have n: "normalizeTarget (JStr ''123@s.whatsapp.net'') = Inr ''123@s.whatsapp.net''"
    by (simp add: normalizeTarget_def trim_def is_ws_def)
  have r: "required_string (JStr ''hello'')" by (simp add: required_string_def)
  show ?thesis
    using not_connected_send[OF h, where target="JStr ''123@s.whatsapp.net''"
        and jid="''123@s.whatsapp.net''" and msg="JStr ''hello''" and ?base64.0="JStr ''hello''"
        and filename="JStr ''hello''" and mimetype="JStr ''hello''" and pollText="JStr ''hello''"
        and pollOptions="JArr [JStr ''A'', JStr ''B'']" and env=example_env] h0 n r
    by simp
qed

text \<open>
  Claim C6. When serialising or writing fails, \<open>appendEvent\<close> only logs: the journal is
  unchanged, and \<open>pushEvent\<close> queues the webhook delivery as it does after a successful
  write. On read, a row that does not parse, or whose timestamp cannot be read as a date,
  is skipped: the query returns what it returns without that row. A missing journal file
  yields the empty list.
\<close>

theorem persistence_failures:
  "(JSON_stringify env ev = None \<or> \<not> fs_writable w \<longrightarrow>
      appendEvent env ev w = log_line ''Failed to append event log'' w
    \<and> events_log (appendEvent env ev w) = events_log w
    \<and> queue (pushEvent env ty p w) = queue (pushEvent env ty p (w\<lparr>fs_writable := True\<rparr>)))
  \<and> ((c1 = [] \<or> last c1 = CHR 0x0A) \<and> CHR 0x0A \<notin> set bad
      \<and> (case JSON_parse env bad of None \<Rightarrow> True | Some p \<Rightarrow> event_time env p = None) \<longrightarrow>
      readEventsBetween env (Some (c1 @ bad @ CHR 0x0A # c2)) s e =
        readEventsBetween env (Some (c1 @ c2)) s e)
  \<and> readEventsBetween env None s e = []"
proof -
  have a: "JSON_stringify env ev = None \<or> \<not> fs_writable w \<longrightarrow>
      appendEvent env ev w = log_line ''Failed to append event log'' w
    \<and> events_log (appendEvent env ev w) = events_log w"
    by (auto simp: appendEvent_def log_line_def Let_def split: option.splits)
  have b: "queue (pushEvent env ty p w) = queue (pushEvent env ty p (w\<lparr>fs_writable := True\<rparr>))"
    by (simp add: pushEvent_def enqueue_def appendEvent_def now_def log_line_def run_start_def
        Let_def split: option.splits)
  have c: "readEventsBetween env None s e = []" by (simp add: readEventsBetween_def)
  show ?thesis using a b c corrupt_row_skipped[of c1 bad env c2 s e] by blast
qed

text \<open>An instance, in the example environment.\<close>

theorem persistence_failures_witness:
  "\<not> fs_writable (started\<lparr>fs_writable := False\<rparr>)
   \<and> appendEvent example_env (JObj [(''timestamp'', JStr ''5'')]) (started\<lparr>fs_writable := False\<rparr>)
       = log_line ''Failed to append event log'' (started\<lparr>fs_writable := False\<rparr>)
   \<and> (''5\<newline>'' = [] \<or> last ''5\<newline>'' = CHR 0x0A)
   \<and> CHR 0x0A \<notin> set ''{broken''
   \<and> JSON_parse example_env ''{broken'' = None
   \<and> readEventsBetween example_env (Some (''5\<newline>'' @ ''{broken'' @ CHR 0x0A # ''15\<newline>'')) 0 100
       = [JObj [(''timestamp'', JStr ''5'')], JObj [(''timestamp'', JStr ''15'')]]
   \<and> readEventsBetween example_env (Some (''5\<newline>'' @ ''15\<newline>'')) 0 100
       = [JObj [(''timestamp'', JStr ''5'')], JObj [(''timestamp'', JStr ''15'')]]"
proof -
  have a: "\<not> fs_writable (started\<lparr>fs_writable := False\<rparr>)" by simp
  have b: "JSON_parse example_env ''{broken'' = None"
    by (simp add: example_env_def digits_only_def)
  have c: "readEventsBetween example_env (Some (''5\<newline>'' @ ''15\<newline>'')) 0 100
       = [JObj [(''timestamp'', JStr ''5'')], JObj [(''timestamp'', JStr ''15'')]]"
    by (simp add: readEventsBetween_def rows_def read_row_def example_env_def digits_only_def
          read_digits_def)
  show ?thesis
    using persistence_failures[where env=example_env and w="started\<lparr>fs_writable := False\<rparr>"
        and ev="JObj [(''timestamp'', JStr ''5'')]" and ?c1.0="''5\<newline>''" and bad="''{broken''"
        and ?c2.0="''15\<newline>''" and s=0 and e=100] a b c
    by simp
qed

text \<open>
  Claim C7, at a failing run. The close handler stores the handle of the timer it sets in
  \<open>reconnectTimer\<close> without clearing the timer it held before, and \<open>stop\<close> and
  \<open>connect\<close> clear only the timer \<open>reconnectTimer\<close> holds (lemmas
  \<open>stop_cancels_tracked\<close>, \<open>connect_clears_tracked\<close>). After two close updates the
  timers 0 and 1 are pending and the handle is 1; \<open>stop\<close> cancels timer 1, closes the
  session and clears the handle, but timer 0 is still pending, and when it fires after the
  stop it opens a new session.
\<close>

theorem stale_reconnect_fires_after_stop:
  "map fst (timers closed_twice) = [0, 1]
   \<and> reconnectTimer closed_twice = Some 1
   \<and> map fst (timers (stop closed_twice)) = [0]
   \<and> reconnectTimer (stop closed_twice) = None
   \<and> socket (stop closed_twice) = None
   \<and> socket (fire_timer example_env 0 (stop closed_twice)) =
       Some \<lparr>sock_id = 1, user = JUndefined, ws = True\<rparr>"
proof -
  have c: "connection close_428 = JStr ''close''" "\<not> truthy (qr close_428)"
    "shouldReconnect example_env close_428"
    by (simp_all add: close_428_def shouldReconnect_def statusCode_of_def get_opt_def
          example_env_def)
  have st: "timers started = []" "next_timer started = 0" "reconnectAttempts started = 0"
    "socket started = Some \<lparr>sock_id = 0, user = JUndefined, ws = True\<rparr>"
    "next_sock started = 1"
    by (simp_all add: ex_defs)
  have b: "RECONNECT_BASE_MS example_env = 1500" "RECONNECT_MAX_MS example_env = 30000"
    by (simp_all add: example_env_def)
  note e1 = close_effect[OF c, where r=0 and w=started]
  note e2 = close_effect[OF c, where r=0
              and w="on_connection_update example_env 0 close_428 started"]
  have t: "timers closed_twice = [(0, Num 1500), (1, Num 3000)]"
    and r: "reconnectTimer closed_twice = Some 1"
    and s: "socket closed_twice = Some \<lparr>sock_id = 0, user = JUndefined, ws = True\<rparr>"
    and n: "next_sock closed_twice = 1"
    unfolding closed_twice_def
    by (simp_all add: e1 e2 st b backoffMs_def js_pow2_def fl_int_def Let_def)
  have t3: "timers (stop closed_twice) = [(0, Num 1500)]"
    and r3: "reconnectTimer (stop closed_twice) = None"
    and s3: "socket (stop closed_twice) = None"
    and n3: "next_sock (stop closed_twice) = 1"
    by (simp_all add: stop_def clear_reconnect_def clearTimeout_def log_line_def t r s n)
  have f: "socket (fire_timer example_env 0 (stop closed_twice)) =
       Some \<lparr>sock_id = 1, user = JUndefined, ws = True\<rparr>"
    by (simp add: fire_timer_def connect_def clear_reconnect_def t3 r3 n3 example_env_def
          log_line_def)
  show ?thesis using t r t3 r3 s3 f by simp
qed




text \<open>
  Claim C9. On a session-open update the handler sets \<open>connected\<close>, resets
  \<open>reconnectAttempts\<close> to 0, clears the QR code, its image, its timestamp and
  \<open>lastDisconnectReason\<close> to \<open>null\<close>, sets \<open>me\<close> to the user of the current socket (or
  \<open>null\<close>), and emits one \<open>connection.open\<close> event carrying it: the event is pushed
  on the event buffer, appended to the journal and queued for the webhook, once each.
\<close>

theorem open_handler:
  assumes "connection upd = JStr ''open''"
  shows "connected (on_connection_update env r upd w)
    \<and> reconnectAttempts (on_connection_update env r upd w) = 0
    \<and> currentQr (on_connection_update env r upd w) = JNull
    \<and> currentQrDataUrl (on_connection_update env r upd w) = JNull
    \<and> qrUpdatedAt (on_connection_update env r upd w) = JNull
    \<and> lastDisconnectReason (on_connection_update env r upd w) = JNull
    \<and> me (on_connection_update env r upd w) =
        (case socket w of None \<Rightarrow> JNull | Some s \<Rightarrow> if truthy (user s) then user s else JNull)
    \<and> (let w0 = on_qr env upd w;
            ev = mk_event (now_at env (ticks w0)) ''connection.open''
                   (JObj [(''me'', me (on_connection_update env r upd w))])
        in eventBuffer (on_connection_update env r upd w) =
             (if int (length (eventBuffer w0 @ [ev])) > EVENT_RETENTION env
              then tl (eventBuffer w0 @ [ev]) else eventBuffer w0 @ [ev])
         \<and> events_log (on_connection_update env r upd w) = events_log (appendEvent env ev w0)
         \<and> queue (on_connection_update env r upd w) =
             (if WEBHOOK_URL env = [] then queue w0
              else queue w0 @ [\<lparr>url = WEBHOOK_URL env, payload = ev, attempt = 0,
                                 enqueuedAt = now_at env (Suc (ticks w0))\<rparr>]))"
proof -
  have c: "on_connection_update env r upd w = on_open env upd (on_qr env upd w)"
    using assms by (simp add: on_connection_update_def on_close_def)
  show ?thesis
    unfolding c using assms
    by (simp add: on_open_def Let_def pushEvent_frame pushEvent_sinks on_qr_frame log_line_def
          js_or_def appendEvent_def split: option.splits)
qed

text \<open>An instance, in the example environment.\<close>

theorem open_handler_witness:
  "connection open_update = JStr ''open''
   \<and> connected (on_connection_update example_env 0 open_update started)
   \<and> reconnectAttempts (on_connection_update example_env 0 open_update started) = 0
   \<and> currentQr (on_connection_update example_env 0 open_update started) = JNull
   \<and> me (on_connection_update example_env 0 open_update started) = JNull
   \<and> eventBuffer (on_connection_update example_env 0 open_update started) =
        [mk_event ''0'' ''connection.open'' (JObj [(''me'', JNull)])]
   \<and> events_log (on_connection_update example_env 0 open_update started) = Some ''0\<newline>''
   \<and> map payload (queue (on_connection_update example_env 0 open_update started)) =
        [mk_event ''0'' ''connection.open'' (JObj [(''me'', JNull)])]"
  using open_handler[where upd=open_update and env=example_env and r=0 and w=started]
  by (simp add: ex_defs on_qr_def appendEvent_def mk_event_def)

text \<open>
  Claim C10. A target that is a non-empty string of white space passes
  \<open>normalizeTarget\<close>, which returns the empty string; only a value that is not a string, or
  the empty string, is rejected. With their other fields valid, \<open>sendText\<close>,
  \<open>sendMedia\<close> and \<open>sendPoll\<close> then reach the connectivity check (whose error they
  return) and, when connected, call \<open>sendMessage\<close> with the empty JID; for \<open>sendPoll\<close>
  the valid fields are a poll text and an array of options whose conversion to strings
  does not throw and leaves at least 2 non-empty options.
\<close>

theorem whitespace_target:
  assumes "t \<noteq> []" "\<forall>c\<in>set t. is_ws c"
  shows "normalizeTarget (JStr t) = Inr []
    \<and> (\<forall>v. (\<exists>e. normalizeTarget v = Inl e) = ((\<forall>s. v \<noteq> JStr s) \<or> v = JStr []))
    \<and> (required_string msg \<longrightarrow>
         (case ensureConnected w of
            Some e \<Rightarrow> sendText env (JStr t) msg w = (Inl e, w)
          | None \<Rightarrow> sent_msgs (snd (sendText env (JStr t) msg w)) =
                      sent_msgs w @ [([], JObj [(''text'', msg)])]))
    \<and> (required_string base64 \<and> required_string filename \<and> required_string mimetype \<longrightarrow>
         (case ensureConnected w of
            Some e \<Rightarrow> sendMedia env (JStr t) base64 filename mimetype w = (Inl e, w)
          | None \<Rightarrow> sent_msgs (snd (sendMedia env (JStr t) base64 filename mimetype w)) =
                      sent_msgs w @ [([], JObj [(''document'', base64), (''fileName'', filename),
                                               (''mimetype'', mimetype)])]))
    \<and> (required_string pollText \<and> isArray pollOptions
          \<and> poll_options env pollOptions = Inr opts \<and> 2 \<le> length opts \<longrightarrow>
         (case ensureConnected w of
            Some e \<Rightarrow> sendPoll env (JStr t) pollText pollOptions w = (Inl e, w)
          | None \<Rightarrow> sent_msgs (snd (sendPoll env (JStr t) pollText pollOptions w)) =
                      sent_msgs w @ [([], JObj [(''poll'',
                                         JObj [(''name'', pollText),
                                               (''values'', JArr (map JStr opts)),
                                               (''selectableCount'', JNum 1)])])]))"
proof -
  have n: "normalizeTarget (JStr t) = Inr []" using assms by (rule normalizeTarget_ws)
  have len: "poll_options env pollOptions = Inr opts \<Longrightarrow> 2 \<le> length opts \<Longrightarrow>
             \<not> length (elements pollOptions) < 2"
    using poll_options_length[of env pollOptions opts] by simp
  have a: "required_string msg \<longrightarrow>
         (case ensureConnected w of
            Some e \<Rightarrow> sendText env (JStr t) msg w = (Inl e, w)
          | None \<Rightarrow> sent_msgs (snd (sendText env (JStr t) msg w)) =
                      sent_msgs w @ [([], JObj [(''text'', msg)])])"
    by (auto simp: sendText_def n socket_send_def pushEvent_frame split: option.splits sum.splits)
  have b: "required_string base64 \<and> required_string filename \<and> required_string mimetype \<longrightarrow>
         (case ensureConnected w of
            Some e \<Rightarrow> sendMedia env (JStr t) base64 filename mimetype w = (Inl e, w)
          | None \<Rightarrow> sent_msgs (snd (sendMedia env (JStr t) base64 filename mimetype w)) =
                      sent_msgs w @ [([], JObj [(''document'', base64), (''fileName'', filename),
                                               (''mimetype'', mimetype)])])"
    by (auto simp: sendMedia_def n socket_send_def pushEvent_frame split: option.splits sum.splits)
  have c: "required_string pollText \<and> isArray pollOptions
          \<and> poll_options env pollOptions = Inr opts \<and> 2 \<le> length opts \<longrightarrow>
         (case ensureConnected w of
            Some e \<Rightarrow> sendPoll env (JStr t) pollText pollOptions w = (Inl e, w)
          | None \<Rightarrow> sent_msgs (snd (sendPoll env (JStr t) pollText pollOptions w)) =
                      sent_msgs w @ [([], JObj [(''poll'',
                                         JObj [(''name'', pollText),
                                               (''values'', JArr (map JStr opts)),
                                               (''selectableCount'', JNum 1)])])])"
    using len
    by (auto simp: sendPoll_def n socket_send_def pushEvent_frame Let_def split: option.splits sum.splits)
  show ?thesis using n normalizeTarget_rejects a b c by blast
qed

text \<open>An instance, in the example environment.\<close>

theorem whitespace_target_witness:
  "'' '' \<noteq> [] \<and> list_all is_ws '' ''
   \<and> normalizeTarget (JStr '' '') = Inr []
   \<and> required_string (JStr ''hello'')
   \<and> isArray (JArr [JStr ''A'', JStr ''B''])
   \<and> poll_options example_env (JArr [JStr ''A'', JStr ''B'']) = Inr [''A'', ''B'']
   \<and> 2 \<le> length [''A'', ''B'']
   \<and> ensureConnected started \<noteq> None
   \<and> fst (sendText example_env (JStr '' '') (JStr ''hello'') started) = Inl (the (ensureConnected started))
   \<and> ensureConnected (started\<lparr>connected := True\<rparr>) = None
   \<and> sent_msgs (snd (sendText example_env (JStr '' '') (JStr ''hello'')
        (started\<lparr>connected := True\<rparr>))) = [([], JObj [(''text'', JStr ''hello'')])]
   \<and> sent_msgs (snd (sendMedia example_env (JStr '' '') (JStr ''hello'') (JStr ''hello'')
        (JStr ''hello'') (started\<lparr>connected := True\<rparr>))) =
        [([], JObj [(''document'', JStr ''hello''), (''fileName'', JStr ''hello''),
                    (''mimetype'', JStr ''hello'')])]
   \<and> sent_msgs (snd (sendPoll example_env (JStr '' '') (JStr ''hello'')
        (JArr [JStr ''A'', JStr ''B'']) (started\<lparr>connected := True\<rparr>))) =
        [([], JObj [(''poll'', JObj [(''name'', JStr ''hello''),
                                     (''values'', JArr [JStr ''A'', JStr ''B'']),
                                     (''selectableCount'', JNum 1)])])]"
proof -
  have h: "'' '' \<noteq> []" "\<forall>c\<in>set '' ''. is_ws c" by (simp_all add: is_ws_def)
  have l: "list_all is_ws '' ''" by (simp add: is_ws_def)
  have p: "poll_options example_env (JArr [JStr ''A'', JStr ''B'']) = Inr [''A'', ''B'']"
    by (simp add: poll_options_def trim_def is_ws_def)
  have e1: "ensureConnected started =
      Some (JsError (Some 503)
        ''WhatsApp is not connected. Authenticate first and wait for connection.open.'')"
    by (simp add: ensureConnected_def ex_defs)
  have e2: "ensureConnected (started\<lparr>connected := True\<rparr>) = None"
    by (simp add: ensureConnected_def ex_defs)
  have s: "sent_msgs started = []" by (simp add: ex_defs)
  show ?thesis
    using whitespace_target[OF h, where msg="JStr ''hello''" and ?base64.0="JStr ''hello''"
        and filename="JStr ''hello''" and mimetype="JStr ''hello''" and pollText="JStr ''hello''"
        and pollOptions="JArr [JStr ''A'', JStr ''B'']" and env=example_env and w=started
        and opts="[''A'', ''B'']"]
      whitespace_target[OF h, where msg="JStr ''hello''" and ?base64.0="JStr ''hello''"
        and filename="JStr ''hello''" and mimetype="JStr ''hello''" and pollText="JStr ''hello''"
        and pollOptions="JArr [JStr ''A'', JStr ''B'']" and env=example_env
        and w="started\<lparr>connected := True\<rparr>" and opts="[''A'', ''B'']"]
      h(1) l p e1 e2 s
    by (simp add: required_string_def)
qed

end
